theory Spec2Isabelle
  imports Main "HOL-Library.Sublist" "HOL-Library.AList"
begin

section \<open>Error values (src/errors.ts)\<close>

text \<open>
  The string enum \<open>ErrorCodes\<close>. At run time a member is the string of its own name;
  \<open>code_value\<close> gives that string, which is what \<open>error.code === '...'\<close> compares.
\<close>

datatype ErrorCodes =
    NETWORK_ERROR | RPC_ERROR | TIMEOUT_ERROR
  | TRANSACTION_FAILED | TRANSACTION_REVERTED | INSUFFICIENT_FUNDS | GAS_ESTIMATION_FAILED
  | CONTRACT_NOT_DEPLOYED | CONTRACT_NOT_VERIFIED | INVALID_CONTRACT_ADDRESS
  | INVALID_TOKEN_ID | LICENSE_NOT_FOUND | LICENSE_EXPIRED | LICENSE_REVOKED
  | LICENSE_ALREADY_EXISTS | INVALID_LICENSE_METADATA
  | UNAUTHORIZED | INSUFFICIENT_PERMISSIONS | ROLE_NOT_GRANTED
  | INVALID_ADDRESS | INVALID_NETWORK | INVALID_CONFIG | INVALID_METADATA
  | INSUFFICIENT_SIGNATURES | INVALID_SIGNATURE | SIGNATURE_TIMEOUT
  | UPGRADE_NOT_AUTHORIZED | INVALID_IMPLEMENTATION | UPGRADE_FAILED
  | UNKNOWN_ERROR | VALIDATION_ERROR | CONFIGURATION_ERROR

fun code_value :: "ErrorCodes \<Rightarrow> string" where
  "code_value NETWORK_ERROR = ''NETWORK_ERROR''"
| "code_value RPC_ERROR = ''RPC_ERROR''"
| "code_value TIMEOUT_ERROR = ''TIMEOUT_ERROR''"
| "code_value TRANSACTION_FAILED = ''TRANSACTION_FAILED''"
| "code_value TRANSACTION_REVERTED = ''TRANSACTION_REVERTED''"
| "code_value INSUFFICIENT_FUNDS = ''INSUFFICIENT_FUNDS''"
| "code_value GAS_ESTIMATION_FAILED = ''GAS_ESTIMATION_FAILED''"
| "code_value CONTRACT_NOT_DEPLOYED = ''CONTRACT_NOT_DEPLOYED''"
| "code_value CONTRACT_NOT_VERIFIED = ''CONTRACT_NOT_VERIFIED''"
| "code_value INVALID_CONTRACT_ADDRESS = ''INVALID_CONTRACT_ADDRESS''"
| "code_value INVALID_TOKEN_ID = ''INVALID_TOKEN_ID''"
| "code_value LICENSE_NOT_FOUND = ''LICENSE_NOT_FOUND''"
| "code_value LICENSE_EXPIRED = ''LICENSE_EXPIRED''"
| "code_value LICENSE_REVOKED = ''LICENSE_REVOKED''"
| "code_value LICENSE_ALREADY_EXISTS = ''LICENSE_ALREADY_EXISTS''"
| "code_value INVALID_LICENSE_METADATA = ''INVALID_LICENSE_METADATA''"
| "code_value UNAUTHORIZED = ''UNAUTHORIZED''"
| "code_value INSUFFICIENT_PERMISSIONS = ''INSUFFICIENT_PERMISSIONS''"
| "code_value ROLE_NOT_GRANTED = ''ROLE_NOT_GRANTED''"
| "code_value INVALID_ADDRESS = ''INVALID_ADDRESS''"
| "code_value INVALID_NETWORK = ''INVALID_NETWORK''"
| "code_value INVALID_CONFIG = ''INVALID_CONFIG''"
| "code_value INVALID_METADATA = ''INVALID_METADATA''"
| "code_value INSUFFICIENT_SIGNATURES = ''INSUFFICIENT_SIGNATURES''"
| "code_value INVALID_SIGNATURE = ''INVALID_SIGNATURE''"
| "code_value SIGNATURE_TIMEOUT = ''SIGNATURE_TIMEOUT''"
| "code_value UPGRADE_NOT_AUTHORIZED = ''UPGRADE_NOT_AUTHORIZED''"
| "code_value INVALID_IMPLEMENTATION = ''INVALID_IMPLEMENTATION''"
| "code_value UPGRADE_FAILED = ''UPGRADE_FAILED''"
| "code_value UNKNOWN_ERROR = ''UNKNOWN_ERROR''"
| "code_value VALIDATION_ERROR = ''VALIDATION_ERROR''"
| "code_value CONFIGURATION_ERROR = ''CONFIGURATION_ERROR''"

text \<open>
  The value of a \<open>code\<close> property: the client library tags its failures with strings
  (\<open>'CALL_EXCEPTION'\<close>), a JSON-RPC node with numbers (\<open>-32603\<close>).
\<close>

datatype js_code = CodeString string | CodeNumber int

text \<open>
  The \<open>details\<close> argument of the \<open>LicenseChainError\<close> constructor, for the object
  literals the source builds: \<open>{ originalError: error }\<close>, \<open>{ network }\<close>, or none.
\<close>

datatype 'e error_details = OriginalError 'e | NetworkDetails string | NoDetails

text \<open>
  A thrown object. \<open>JsError code message\<close> is an \<open>Error\<close> that is not a
  \<open>LicenseChainError\<close>: \<open>new Error(msg)\<close> has no \<open>code\<close>, a failure of the client
  library or of the node carries one. Either property may be absent (\<open>undefined\<close>);
  a present \<open>message\<close> is a string. \<open>LicenseChainError code message details\<close> is
  an instance of the class of that name.
\<close>

datatype js_error =
    is_JsError: JsError "js_code option" "string option"
  | is_LicenseChainError: LicenseChainError ErrorCodes string "js_error error_details"

text \<open>The property reads \<open>error.code\<close> and \<open>error.message\<close>.\<close>

fun error_code :: "js_error \<Rightarrow> js_code option" where
  "error_code (JsError c m) = c"
| "error_code (LicenseChainError c m d) = Some (CodeString (code_value c))"

fun error_message :: "js_error \<Rightarrow> string option" where
  "error_message (JsError c m) = m"
| "error_message (LicenseChainError c m d) = Some m"

text \<open>\<open>error.message || fallback\<close>: an absent or empty message is falsy.\<close>

definition message_or :: "js_error \<Rightarrow> string \<Rightarrow> string" where
  "message_or error fallback =
     (case error_message error of
        None \<Rightarrow> fallback
      | Some m \<Rightarrow> if m = [] then fallback else m)"

definition fromEthersError :: "js_error \<Rightarrow> js_error" where
  "fromEthersError error =
     (if error_code error = Some (CodeString ''INSUFFICIENT_FUNDS'') then
        LicenseChainError INSUFFICIENT_FUNDS ''Insufficient funds for transaction''
          (OriginalError error)
      else if error_code error = Some (CodeString ''UNPREDICTABLE_GAS_LIMIT'') then
        LicenseChainError GAS_ESTIMATION_FAILED ''Gas estimation failed'' (OriginalError error)
      else if error_code error = Some (CodeString ''CALL_EXCEPTION'') then
        LicenseChainError TRANSACTION_REVERTED ''Transaction reverted'' (OriginalError error)
      else if error_code error = Some (CodeString ''NETWORK_ERROR'') then
        LicenseChainError NETWORK_ERROR ''Network error occurred'' (OriginalError error)
      else
        LicenseChainError UNKNOWN_ERROR (message_or error ''Unknown error occurred'')
          (OriginalError error))"

definition fromRpcError :: "js_error \<Rightarrow> js_error" where
  "fromRpcError error =
     (if error_code error = Some (CodeNumber (- 32603)) then
        LicenseChainError RPC_ERROR ''Internal JSON-RPC error'' (OriginalError error)
      else if error_code error = Some (CodeNumber (- 32602)) then
        LicenseChainError VALIDATION_ERROR ''Invalid parameters'' (OriginalError error)
      else if error_code error = Some (CodeNumber (- 32000)) then
        LicenseChainError TRANSACTION_FAILED ''Transaction failed'' (OriginalError error)
      else
        LicenseChainError RPC_ERROR (message_or error ''RPC error occurred'')
          (OriginalError error))"

definition invalidNetwork :: "string \<Rightarrow> js_error" where
  "invalidNetwork network =
     LicenseChainError INVALID_NETWORK (''Invalid network: '' @ network) (NetworkDetails network)"

text \<open>The \<open>code\<close> and \<open>details\<close> fields of a \<open>LicenseChainError\<close>; absent on other errors.\<close>

fun kind_of :: "js_error \<Rightarrow> ErrorCodes option" where
  "kind_of (LicenseChainError c m d) = Some c"
| "kind_of (JsError c m) = None"

fun details_of :: "js_error \<Rightarrow> js_error error_details" where
  "details_of (LicenseChainError c m d) = d"
| "details_of (JsError c m) = NoDetails"

section \<open>Retry and timeout helpers (utils)\<close>

text \<open>\<open>message.includes(code)\<close>: the code occurs in the message as a contiguous substring.\<close>

fun str_includes :: "string \<Rightarrow> string \<Rightarrow> bool" where
  "str_includes [] code = (code = [])"
| "str_includes (c # cs) code = (prefix code (c # cs) \<or> str_includes cs code)"

text \<open>
  \<open>retryableErrors.some(code => error.code === code || error.message?.includes(code))\<close>;
  the optional chaining makes an absent message count as no match.
\<close>

definition retryableErrors :: "string list" where
  "retryableErrors = [''NETWORK_ERROR'', ''TIMEOUT_ERROR'', ''RPC_ERROR'']"

definition isRetryableError :: "js_error \<Rightarrow> bool" where
  "isRetryableError error =
     list_ex (\<lambda>code. error_code error = Some (CodeString code)
                \<or> (case error_message error of None \<Rightarrow> False | Some m \<Rightarrow> str_includes m code))
       retryableErrors"

text \<open>
  What a run of \<open>retryWithBackoff\<close> does, in the order in which it does it: an
  invocation of the operation, or a sleep with the delay passed to \<open>setTimeout\<close>.
\<close>

datatype retry_event = Invoked | Slept int

text \<open>
  The world of a run: the state the operation works on, and the events so far, oldest
  first.
\<close>

record 's retry_trace =
  op_state :: 's
  events :: "retry_event list"

text \<open>
  The operation \<open>fn\<close> is a state transformer that rejects (\<open>Inl\<close>) or resolves
  (\<open>Inr\<close>). The loop variable \<open>i\<close> counts from 0; \<open>maxRetries\<close> and \<open>baseDelay\<close> are
  integers, both given (the defaults 3 and 1000 stand in for omitted arguments only).
  \<open>lastError\<close> is declared without a value, so it is \<open>undefined\<close> (\<open>None\<close>) until
  the first failure; a rejection of the wrapper is \<open>Inl\<close> of what is thrown. Each
  \<open>await fn()\<close> adds \<open>Invoked\<close> to the events, each awaited \<open>setTimeout\<close> adds
  \<open>Slept delay\<close>.
\<close>

function retry_loop ::
  "('s \<Rightarrow> ('e + 'a) \<times> 's) \<Rightarrow> int \<Rightarrow> int \<Rightarrow> nat \<Rightarrow> 'e option \<Rightarrow> 's retry_trace
     \<Rightarrow> ('e option + 'a) \<times> 's retry_trace" where
  "retry_loop fn maxRetries baseDelay i lastError w =
     (if int i < maxRetries then
        (case fn (op_state w) of
           (Inr v, s') \<Rightarrow> (Inr v, w\<lparr>op_state := s', events := events w @ [Invoked]\<rparr>)
         | (Inl error, s') \<Rightarrow>
             if int i = maxRetries - 1 then
               (Inl (Some error), w\<lparr>op_state := s', events := events w @ [Invoked]\<rparr>)
             else
               retry_loop fn maxRetries baseDelay (i + 1) (Some error)
                 (w\<lparr>op_state := s',
                    events := events w @ [Invoked, Slept (baseDelay * 2 ^ i)]\<rparr>))
      else (Inl lastError, w))"
  by pat_completeness auto
termination
  by (relation "measure (\<lambda>(fn, maxRetries, baseDelay, i, lastError, w). nat (maxRetries - int i))")
     auto

declare retry_loop.simps [simp del]

definition retryWithBackoff ::
  "('s \<Rightarrow> ('e + 'a) \<times> 's) \<Rightarrow> int \<Rightarrow> int \<Rightarrow> 's \<Rightarrow> ('e option + 'a) \<times> 's retry_trace" where
  "retryWithBackoff fn maxRetries baseDelay s =
     retry_loop fn maxRetries baseDelay 0 None \<lparr>op_state = s, events = []\<rparr>"

text \<open>
  A promise, by when and how it settles. Instants are points of the event order, counted
  like the milliseconds of \<open>setTimeout\<close>.
\<close>

datatype 'a promise = Never | Settles nat "js_error + 'a"

text \<open>
  \<open>Promise.race\<close> of two promises settles like the one that settles first; at the same
  instant the first of the array is taken.
\<close>

fun race :: "'a promise \<Rightarrow> 'a promise \<Rightarrow> 'a promise" where
  "race Never q = q"
| "race (Settles t r) Never = Settles t r"
| "race (Settles t r) (Settles u x) = (if t \<le> u then Settles t r else Settles u x)"

text \<open>
  The delay \<open>setTimeout\<close> waits for: Node.js runs a timer whose delay is below 1 or
  above 2147483647 (\<open>2^31 - 1\<close>) with a delay of 1.
\<close>

definition timer_delay :: "nat \<Rightarrow> nat" where
  "timer_delay ms = (if 1 \<le> ms \<and> ms \<le> 2147483647 then ms else 1)"

text \<open>The timer promise: it rejects with \<open>new Error('Operation timed out')\<close>.\<close>

definition timeout_rejection :: "nat \<Rightarrow> 'a promise" where
  "timeout_rejection timeoutMs =
     Settles (timer_delay timeoutMs) (Inl (JsError None (Some ''Operation timed out'')))"

definition withTimeout :: "'a promise \<Rightarrow> nat \<Rightarrow> 'a promise" where
  "withTimeout promise timeoutMs = race promise (timeout_rejection timeoutMs)"


section \<open>Network resolution (utils)\<close>

record NetworkConfig =
  chainId :: int
  rpcUrl :: string
  explorerUrl :: string
  name :: string

text \<open>\<open>rpcUrl || fallback\<close>: an absent or empty endpoint is falsy.\<close>

definition rpc_or :: "string option \<Rightarrow> string \<Rightarrow> string" where
  "rpc_or url fallback =
     (case url of None \<Rightarrow> fallback | Some u \<Rightarrow> if u = [] then fallback else u)"

text \<open>The own properties of the object literal \<open>configs\<close>.\<close>

definition configs :: "string option \<Rightarrow> (string \<times> NetworkConfig) list" where
  "configs rpcUrl' =
     [(''mainnet'', \<lparr>chainId = 1,
         rpcUrl = rpc_or rpcUrl' ''https://eth-mainnet.g.alchemy.com/v2/YOUR_KEY'',
         explorerUrl = ''https://etherscan.io'', name = ''Ethereum Mainnet''\<rparr>),
      (''goerli'', \<lparr>chainId = 5,
         rpcUrl = rpc_or rpcUrl' ''https://eth-goerli.g.alchemy.com/v2/YOUR_KEY'',
         explorerUrl = ''https://goerli.etherscan.io'', name = ''Goerli Testnet''\<rparr>),
      (''sepolia'', \<lparr>chainId = 11155111,
         rpcUrl = rpc_or rpcUrl' ''https://eth-sepolia.g.alchemy.com/v2/YOUR_KEY'',
         explorerUrl = ''https://sepolia.etherscan.io'', name = ''Sepolia Testnet''\<rparr>),
      (''polygon'', \<lparr>chainId = 137,
         rpcUrl = rpc_or rpcUrl' ''https://polygon-mainnet.g.alchemy.com/v2/YOUR_KEY'',
         explorerUrl = ''https://polygonscan.com'', name = ''Polygon Mainnet''\<rparr>),
      (''arbitrum'', \<lparr>chainId = 42161,
         rpcUrl = rpc_or rpcUrl' ''https://arb-mainnet.g.alchemy.com/v2/YOUR_KEY'',
         explorerUrl = ''https://arbiscan.io'', name = ''Arbitrum One''\<rparr>),
      (''optimism'', \<lparr>chainId = 10,
         rpcUrl = rpc_or rpcUrl' ''https://opt-mainnet.g.alchemy.com/v2/YOUR_KEY'',
         explorerUrl = ''https://optimistic.etherscan.io'', name = ''Optimism''\<rparr>)]"

text \<open>
  \<open>configs[network]\<close> reads an object literal, whose prototype is \<open>Object.prototype\<close>:
  a name that is no own property but a member of the prototype yields that member,
  which is truthy and so passes \<open>if (!config)\<close>.
\<close>

definition object_prototype_members :: "string list" where
  "object_prototype_members =
     [''constructor'', ''__proto__'', ''hasOwnProperty'', ''isPrototypeOf'',
      ''propertyIsEnumerable'', ''toLocaleString'', ''toString'', ''valueOf'',
      ''__defineGetter__'', ''__defineSetter__'', ''__lookupGetter__'', ''__lookupSetter__'']"

text \<open>
  What \<open>getNetworkConfig\<close> returns: a network profile, or the prototype member
  of the given name handed out as if it were one.
\<close>

datatype resolved = Profile NetworkConfig | PrototypeMember string

text \<open>
  Truthiness of the optional arguments, as \<open>chainId && rpcUrl\<close> tests it: a chain id
  is truthy when present and not 0, an endpoint when present and not empty.
\<close>

definition truthy_number :: "int option \<Rightarrow> bool" where
  "truthy_number n = (case n of None \<Rightarrow> False | Some c \<Rightarrow> c \<noteq> 0)"

definition truthy_string :: "string option \<Rightarrow> bool" where
  "truthy_string t = (case t of None \<Rightarrow> False | Some u \<Rightarrow> u \<noteq> [])"

text \<open>The failure is \<open>new Error(`Unsupported network: ${network}`)\<close>.\<close>

definition getNetworkConfig ::
  "string \<Rightarrow> string option \<Rightarrow> int option \<Rightarrow> js_error + resolved" where
  "getNetworkConfig network rpcUrl' chainId' =
     (if network = ''custom'' \<and> truthy_number chainId' \<and> truthy_string rpcUrl' then
        Inr (Profile \<lparr>chainId = the chainId', rpcUrl = the rpcUrl',
                      explorerUrl = ''https://etherscan.io'', name = ''Custom Network''\<rparr>)
      else
        (case map_of (configs rpcUrl') network of
           Some config \<Rightarrow> Inr (Profile config)
         | None \<Rightarrow>
             if network \<in> set object_prototype_members then Inr (PrototypeMember network)
             else Inl (JsError None (Some (''Unsupported network: '' @ network)))))"

section \<open>JavaScript values and \<open>JSON.stringify\<close>\<close>

text \<open>
  The values a metadata object is built from. \<open>Finite i\<close> is the integer-valued number
  \<open>i\<close>; the model is meant for safe integers (magnitude at most \<open>2^53 - 1\<close>), which
  JavaScript prints as plain decimal digits. Numbers with a fraction are not modelled.
  A string is a sequence of code units below 256. An object is the list of its own
  enumerable properties in enumeration order.
\<close>

datatype js_number = Finite int | NaN | PosInfinity | NegInfinity

datatype js_value =
    JsUndefined
  | JsNull
  | JsBool bool
  | JsNumber js_number
  | JsString string
  | JsArray "js_value list"
  | JsObject "(string \<times> js_value) list"

definition dquote :: char where
  "dquote = CHR 0x22"

definition backslash :: char where
  "backslash = CHR 0x5C"

definition digit_char :: "nat \<Rightarrow> char" where
  "digit_char d = char_of (48 + d)"

text \<open>\<open>toString()\<close> of a non-negative \<open>bigint\<close>, and of a safe integer.\<close>

fun digits :: "nat \<Rightarrow> string" where
  "digits n = (if n < 10 then [digit_char n] else digits (n div 10) @ [digit_char (n mod 10)])"

declare digits.simps [simp del]

definition int_toString :: "int \<Rightarrow> string" where
  "int_toString i = (if i < 0 then CHR ''-'' # digits (nat (- i)) else digits (nat i))"

definition hex_char :: "nat \<Rightarrow> char" where
  "hex_char d = (if d < 10 then char_of (48 + d) else char_of (87 + d))"

text \<open>
  \<open>QuoteJSONString\<close> of ECMA-262: the two-character escapes, \<open>\u00xx\<close> (lower-case
  hexadecimal) for the other control characters, and every other code unit as it is.
\<close>

definition quote_char :: "char \<Rightarrow> string" where
  "quote_char c =
     (if c = CHR 0x08 then [backslash, CHR ''b'']
      else if c = CHR 0x09 then [backslash, CHR ''t'']
      else if c = CHR 0x0A then [backslash, CHR ''n'']
      else if c = CHR 0x0C then [backslash, CHR ''f'']
      else if c = CHR 0x0D then [backslash, CHR ''r'']
      else if (of_char c :: nat) < 32 then
        [backslash, CHR ''u'', CHR ''0'', CHR ''0'',
         hex_char (of_char c div 16), hex_char (of_char c mod 16)]
      else if c = dquote then [backslash, dquote]
      else if c = backslash then [backslash, backslash]
      else [c])"

definition QuoteJSONString :: "string \<Rightarrow> string" where
  "QuoteJSONString s = dquote # concat (map quote_char s) @ [dquote]"

fun join :: "string \<Rightarrow> string list \<Rightarrow> string" where
  "join sep [] = []"
| "join sep [x] = x"
| "join sep (x # y # ys) = x @ sep @ join sep (y # ys)"

text \<open>
  \<open>SerializeJSONProperty\<close> of ECMA-262 without a replacer or indentation, as
  \<open>JSON.stringify(value)\<close> calls it. \<open>None\<close> is the result \<open>undefined\<close>: an
  \<open>undefined\<close> element of an array is written \<open>null\<close>, an \<open>undefined\<close> property of
  an object is left out, and a number that is not finite is written \<open>null\<close>.
\<close>

fun SerializeJSONProperty :: "js_value \<Rightarrow> string option" where
  "SerializeJSONProperty JsUndefined = None"
| "SerializeJSONProperty JsNull = Some ''null''"
| "SerializeJSONProperty (JsBool b) = Some (if b then ''true'' else ''false'')"
| "SerializeJSONProperty (JsNumber n) =
     Some (case n of Finite i \<Rightarrow> int_toString i | _ \<Rightarrow> ''null'')"
| "SerializeJSONProperty (JsString s) = Some (QuoteJSONString s)"
| "SerializeJSONProperty (JsArray vs) =
     Some (''['' @ join '',''
             (map (\<lambda>v. case SerializeJSONProperty v of None \<Rightarrow> ''null'' | Some t \<Rightarrow> t) vs)
           @ '']'')"
| "SerializeJSONProperty (JsObject ps) =
     Some (''{'' @ join '',''
             (concat (map (\<lambda>(k, v). case SerializeJSONProperty v of
                                      None \<Rightarrow> []
                                    | Some t \<Rightarrow> [QuoteJSONString k @ '':'' @ t]) ps))
           @ ''}'')"

definition JSON_stringify :: "js_value \<Rightarrow> string option" where
  "JSON_stringify v = SerializeJSONProperty v"

section \<open>\<open>JSON.parse\<close>\<close>

text \<open>
  \<open>JSON.parse(text)\<close> without a reviver, as a recursive-descent reader of the JSON
  grammar of ECMA-404. Its outcome is the value, or a failure: \<open>SyntaxError\<close> is the
  exception of that name; \<open>NotModelled\<close> says that the text leaves the modelled values
  (a number literal with a fraction or an exponent, \<open>-0\<close>, an integer beyond the safe
  range, a \<open>\u\<close> escape of a code unit above 255); \<open>OutOfFuel\<close> is the recursion
  bound of \<open>parse_value\<close>, which \<open>JSON_parse\<close> never reaches
  (lemma \<open>JSON_parse_never_out_of_fuel\<close>).
\<close>

datatype json_failure = SyntaxError | NotModelled | OutOfFuel

definition is_digit :: "char \<Rightarrow> bool" where
  "is_digit c = (48 \<le> (of_char c :: nat) \<and> (of_char c :: nat) \<le> 57)"

text \<open>JSON white space: space, tab, line feed, carriage return.\<close>

definition is_ws :: "char \<Rightarrow> bool" where
  "is_ws c = (c = CHR '' '' \<or> c = CHR 0x09 \<or> c = CHR 0x0A \<or> c = CHR 0x0D)"

definition skip_ws :: "string \<Rightarrow> string" where
  "skip_ws s = dropWhile is_ws s"

definition digit_value :: "char \<Rightarrow> nat" where
  "digit_value c = of_char c - 48"

definition digits_value :: "string \<Rightarrow> nat" where
  "digits_value ds = foldl (\<lambda>acc c. 10 * acc + digit_value c) 0 ds"

text \<open>\<open>Number.MAX_SAFE_INTEGER\<close>, \<open>2^53 - 1\<close>.\<close>

definition MAX_SAFE_INTEGER :: int where
  "MAX_SAFE_INTEGER = 9007199254740991"

text \<open>
  A number literal: an optional minus sign and the digits of the integer part, which has
  no leading zero. The rest of the text is returned with the number.
\<close>

definition parse_number :: "string \<Rightarrow> json_failure + (js_value \<times> string)" where
  "parse_number s =
     (let negative = (case s of [] \<Rightarrow> False | c # cs \<Rightarrow> c = CHR ''-'');
          body = (if negative then drop 1 s else s);
          ds = takeWhile is_digit body;
          rest = dropWhile is_digit body
      in if ds = [] then Inl SyntaxError
         else if 1 < length ds \<and> take 1 ds = ''0'' then Inl SyntaxError
         else if (case rest of [] \<Rightarrow> False
                  | c # cs \<Rightarrow> c = CHR ''.'' \<or> c = CHR ''e'' \<or> c = CHR ''E'')
           then Inl NotModelled
         else if MAX_SAFE_INTEGER < int (digits_value ds) \<or> (negative \<and> digits_value ds = 0)
           then Inl NotModelled
         else Inr (JsNumber (Finite (if negative then - int (digits_value ds)
                                     else int (digits_value ds))), rest))"

definition hex_value :: "char \<Rightarrow> nat option" where
  "hex_value c =
     (let n = (of_char c :: nat) in
      if 48 \<le> n \<and> n \<le> 57 then Some (n - 48)
      else if 97 \<le> n \<and> n \<le> 102 then Some (n - 87)
      else if 65 \<le> n \<and> n \<le> 70 then Some (n - 55)
      else None)"

text \<open>The character a two-character escape stands for.\<close>

definition unescape :: "char \<Rightarrow> char option" where
  "unescape e =
     (if e = dquote then Some dquote
      else if e = backslash then Some backslash
      else if e = CHR ''/'' then Some CHR ''/''
      else if e = CHR ''b'' then Some (CHR 0x08)
      else if e = CHR ''f'' then Some (CHR 0x0C)
      else if e = CHR ''n'' then Some (CHR 0x0A)
      else if e = CHR ''r'' then Some (CHR 0x0D)
      else if e = CHR ''t'' then Some (CHR 0x09)
      else None)"

definition string_cons ::
  "char \<Rightarrow> json_failure + (string \<times> string) \<Rightarrow> json_failure + (string \<times> string)" where
  "string_cons c r = (case r of Inl f \<Rightarrow> Inl f | Inr (str, rest) \<Rightarrow> Inr (c # str, rest))"

text \<open>
  The characters of a string literal after its opening quote, up to the closing quote;
  a raw control character is a syntax error.
\<close>

fun parse_string_chars :: "string \<Rightarrow> json_failure + (string \<times> string)" where
  "parse_string_chars [] = Inl SyntaxError"
| "parse_string_chars (c # cs) =
     (if c = dquote then Inr ([], cs)
      else if c = backslash then
        (case cs of
           [] \<Rightarrow> Inl SyntaxError
         | e # cs' \<Rightarrow>
             if e = CHR ''u'' then
               (case cs' of
                  h1 # h2 # h3 # h4 # cs'' \<Rightarrow>
                    (case (hex_value h1, hex_value h2, hex_value h3, hex_value h4) of
                       (Some a, Some b, Some c', Some d) \<Rightarrow>
                         (let unit = ((a * 16 + b) * 16 + c') * 16 + d in
                          if unit < 256 then string_cons (char_of unit) (parse_string_chars cs'')
                          else Inl NotModelled)
                     | _ \<Rightarrow> Inl SyntaxError)
                | _ \<Rightarrow> Inl SyntaxError)
             else
               (case unescape e of
                  None \<Rightarrow> Inl SyntaxError
                | Some ch \<Rightarrow> string_cons ch (parse_string_chars cs')))
      else if (of_char c :: nat) < 32 then Inl SyntaxError
      else string_cons c (parse_string_chars cs))"

text \<open>
  A value, the elements of an array after \<open>[\<close>, and the members of an object after
  \<open>{\<close>; \<open>acc\<close> holds what has been read of the array or object. A repeated key
  overwrites the earlier value and keeps its place, as \<open>CreateDataProperty\<close> does.
\<close>

fun parse_value :: "nat \<Rightarrow> string \<Rightarrow> json_failure + (js_value \<times> string)"
  and parse_elements :: "nat \<Rightarrow> js_value list \<Rightarrow> string \<Rightarrow> json_failure + (js_value \<times> string)"
  and parse_members ::
    "nat \<Rightarrow> (string \<times> js_value) list \<Rightarrow> string \<Rightarrow> json_failure + (js_value \<times> string)" where
  "parse_value 0 s = Inl OutOfFuel"
| "parse_value (Suc fuel) s =
     (case skip_ws s of
        [] \<Rightarrow> Inl SyntaxError
      | c # cs \<Rightarrow>
          if c = dquote then
            (case parse_string_chars cs of
               Inl f \<Rightarrow> Inl f
             | Inr (str, rest) \<Rightarrow> Inr (JsString str, rest))
          else if c = CHR ''['' then
            (case skip_ws cs of
               [] \<Rightarrow> Inl SyntaxError
             | d # ds \<Rightarrow> if d = CHR '']'' then Inr (JsArray [], ds)
                         else parse_elements fuel [] cs)
          else if c = CHR ''{'' then
            (case skip_ws cs of
               [] \<Rightarrow> Inl SyntaxError
             | d # ds \<Rightarrow> if d = CHR ''}'' then Inr (JsObject [], ds)
                         else parse_members fuel [] cs)
          else if prefix ''true'' (c # cs) then Inr (JsBool True, drop 4 (c # cs))
          else if prefix ''false'' (c # cs) then Inr (JsBool False, drop 5 (c # cs))
          else if prefix ''null'' (c # cs) then Inr (JsNull, drop 4 (c # cs))
          else if c = CHR ''-'' \<or> is_digit c then parse_number (c # cs)
          else Inl SyntaxError)"
| "parse_elements 0 acc s = Inl OutOfFuel"
| "parse_elements (Suc fuel) acc s =
     (case parse_value fuel s of
        Inl f \<Rightarrow> Inl f
      | Inr (v, rest) \<Rightarrow>
          (case skip_ws rest of
             [] \<Rightarrow> Inl SyntaxError
           | d # ds \<Rightarrow>
               if d = CHR '','' then parse_elements fuel (acc @ [v]) ds
               else if d = CHR '']'' then Inr (JsArray (acc @ [v]), ds)
               else Inl SyntaxError))"
| "parse_members 0 acc s = Inl OutOfFuel"
| "parse_members (Suc fuel) acc s =
     (case skip_ws s of
        [] \<Rightarrow> Inl SyntaxError
      | c # cs \<Rightarrow>
          if c \<noteq> dquote then Inl SyntaxError
          else
            (case parse_string_chars cs of
               Inl f \<Rightarrow> Inl f
             | Inr (key, rest) \<Rightarrow>
                 (case skip_ws rest of
                    [] \<Rightarrow> Inl SyntaxError
                  | d # ds \<Rightarrow>
                      if d \<noteq> CHR '':'' then Inl SyntaxError
                      else
                        (case parse_value fuel ds of
                           Inl f \<Rightarrow> Inl f
                         | Inr (v, rest') \<Rightarrow>
                             (case skip_ws rest' of
                                [] \<Rightarrow> Inl SyntaxError
                              | x # xs \<Rightarrow>
                                  if x = CHR '','' then
                                    parse_members fuel (AList.update key v acc) xs
                                  else if x = CHR ''}'' then
                                    Inr (JsObject (AList.update key v acc), xs)
                                  else Inl SyntaxError)))))"

text \<open>The whole text is one value between white space.\<close>

definition JSON_parse :: "string \<Rightarrow> json_failure + js_value" where
  "JSON_parse s =
     (case parse_value (Suc (2 * length s)) s of
        Inl f \<Rightarrow> Inl f
      | Inr (v, rest) \<Rightarrow> if skip_ws rest = [] then Inr v else Inl SyntaxError)"

section \<open>The contract facade (src/LicenseContract.ts)\<close>

text \<open>
  \<open>LicenseMetadata\<close> of src/types.ts. \<open>expiresAt\<close> is a \<open>number\<close>, \<open>customData\<close> a
  record of arbitrary values; both are optional.
\<close>

record LicenseMetadata =
  software :: string
  version :: string
  features :: "string list"
  expiresAt :: "js_number option"
  customData :: "(string \<times> js_value) list option"

text \<open>The object a \<open>LicenseMetadata\<close> value is at run time; an absent field is no property.\<close>

definition metadata_object :: "LicenseMetadata \<Rightarrow> js_value" where
  "metadata_object m =
     JsObject
       ([(''software'', JsString (software m)),
         (''version'', JsString (version m)),
         (''features'', JsArray (map JsString (features m)))]
        @ (case expiresAt m of None \<Rightarrow> [] | Some t \<Rightarrow> [(''expiresAt'', JsNumber t)])
        @ (case customData m of None \<Rightarrow> [] | Some d \<Rightarrow> [(''customData'', JsObject d)]))"

text \<open>
  \<open>MintOptions\<close> and \<open>BatchMintOptions\<close> have the same fields; the facade never reads
  their \<open>expiresAt\<close>. \<open>metadata\<close> is the run-time object.
\<close>

record MintOptions =
  to :: string
  tokenId :: int
  metadata :: js_value

datatype tx_status = Pending | Confirmed | Failed

record TransactionResult =
  hash :: string
  blockNumber :: nat
  gasUsed :: string
  status :: tx_status

record GasEstimate =
  gasLimit :: string
  gasPrice :: string
  maxFeePerGas :: "string option"
  maxPriorityFeePerGas :: "string option"
  totalCost :: string

text \<open>
  The fields of the construction-time config that reach the facade (\<open>this.config\<close>).
\<close>

record contract_config =
  cfg_gasLimit :: "nat option"
  cfg_gasPrice :: "string option"
  cfg_confirmations :: "nat option"

text \<open>
  The client library, at the interface the facade uses. A receipt carries the block, the
  gas used (a \<open>bigint\<close>) and the on-chain status (1 success, 0 failure). A transaction
  response carries its hash and \<open>wait(confirms?)\<close>; the argument is the requested
  confirmation depth, \<open>None\<close> when \<open>wait()\<close> is called without one.
\<close>

record tx_receipt =
  rc_hash :: string
  rc_blockNumber :: nat
  rc_gasUsed :: nat
  rc_status :: int
  rc_logs :: "string list"

record tx_response =
  tx_hash :: string
  tx_wait :: "nat option \<Rightarrow> js_error + tx_receipt"

text \<open>The state-changing functions of the contract ABI, with their arguments.\<close>

datatype contract_call =
    MintLicenseCall string int "string option"
  | TransferLicenseCall string string int
  | RevokeLicenseCall int
  | BatchMintLicensesCall "string list" "int list" "string option list"
  | GrantRoleCall string string
  | RevokeRoleCall string string
  | PauseCall
  | UnpauseCall

record overrides =
  ov_gasLimit :: "nat option"
  ov_gasPrice :: "string option"

record fee_data =
  fee_gasPrice :: "nat option"

text \<open>
  \<open>c_send\<close> is a call of a contract method with overrides (it signs and broadcasts),
  \<open>c_estimateGas\<close> its \<open>estimateGas\<close>, \<open>c_getFeeData\<close> the provider's fee query and
  \<open>ethers_id\<close> the hash \<open>ethers.id\<close>.
\<close>

record contract =
  c_send :: "contract_call \<Rightarrow> overrides \<Rightarrow> js_error + tx_response"
  c_estimateGas :: "contract_call \<Rightarrow> js_error + nat"
  c_getFeeData :: "js_error + fee_data"
  ethers_id :: "string \<Rightarrow> string"

definition config_overrides :: "contract_config \<Rightarrow> overrides" where
  "config_overrides config = \<lparr>ov_gasLimit = cfg_gasLimit config, ov_gasPrice = cfg_gasPrice config\<rparr>"

definition mintLicense ::
  "contract \<Rightarrow> contract_config \<Rightarrow> MintOptions \<Rightarrow> js_error + TransactionResult" where
  "mintLicense c config options =
     (let metadata' = JSON_stringify (metadata options) in
      case c_send c (MintLicenseCall (to options) (tokenId options) metadata')
             (config_overrides config) of
        Inl error \<Rightarrow> Inl (fromEthersError error)
      | Inr tx \<Rightarrow>
          (case tx_wait tx None of
             Inl error \<Rightarrow> Inl (fromEthersError error)
           | Inr receipt \<Rightarrow>
               Inr \<lparr>hash = tx_hash tx, blockNumber = rc_blockNumber receipt,
                    gasUsed = digits (rc_gasUsed receipt), status = Confirmed\<rparr>))"

definition transferLicense ::
  "contract \<Rightarrow> contract_config \<Rightarrow> string \<Rightarrow> string \<Rightarrow> int \<Rightarrow> js_error + TransactionResult" where
  "transferLicense c config from to' tokenId' =
     (case c_send c (TransferLicenseCall from to' tokenId') (config_overrides config) of
        Inl error \<Rightarrow> Inl (fromEthersError error)
      | Inr tx \<Rightarrow>
          (case tx_wait tx None of
             Inl error \<Rightarrow> Inl (fromEthersError error)
           | Inr receipt \<Rightarrow>
               Inr \<lparr>hash = tx_hash tx, blockNumber = rc_blockNumber receipt,
                    gasUsed = digits (rc_gasUsed receipt), status = Confirmed\<rparr>))"

definition revokeLicense ::
  "contract \<Rightarrow> contract_config \<Rightarrow> int \<Rightarrow> js_error + TransactionResult" where
  "revokeLicense c config tokenId' =
     (case c_send c (RevokeLicenseCall tokenId') (config_overrides config) of
        Inl error \<Rightarrow> Inl (fromEthersError error)
      | Inr tx \<Rightarrow>
          (case tx_wait tx None of
             Inl error \<Rightarrow> Inl (fromEthersError error)
           | Inr receipt \<Rightarrow>
               Inr \<lparr>hash = tx_hash tx, blockNumber = rc_blockNumber receipt,
                    gasUsed = digits (rc_gasUsed receipt), status = Confirmed\<rparr>))"

definition batchMintLicenses ::
  "contract \<Rightarrow> contract_config \<Rightarrow> MintOptions list \<Rightarrow> js_error + TransactionResult" where
  "batchMintLicenses c config licenses =
     (let tos = map to licenses;
          tokenIds = map tokenId licenses;
          metadatas = map (\<lambda>l. JSON_stringify (metadata l)) licenses in
      case c_send c (BatchMintLicensesCall tos tokenIds metadatas) (config_overrides config) of
        Inl error \<Rightarrow> Inl (fromEthersError error)
      | Inr tx \<Rightarrow>
          (case tx_wait tx None of
             Inl error \<Rightarrow> Inl (fromEthersError error)
           | Inr receipt \<Rightarrow>
               Inr \<lparr>hash = tx_hash tx, blockNumber = rc_blockNumber receipt,
                    gasUsed = digits (rc_gasUsed receipt), status = Confirmed\<rparr>))"

definition grantRole ::
  "contract \<Rightarrow> contract_config \<Rightarrow> string \<Rightarrow> string \<Rightarrow> js_error + TransactionResult" where
  "grantRole c config role account =
     (let roleHash = ethers_id c role in
      case c_send c (GrantRoleCall roleHash account) (config_overrides config) of
        Inl error \<Rightarrow> Inl (fromEthersError error)
      | Inr tx \<Rightarrow>
          (case tx_wait tx None of
             Inl error \<Rightarrow> Inl (fromEthersError error)
           | Inr receipt \<Rightarrow>
               Inr \<lparr>hash = tx_hash tx, blockNumber = rc_blockNumber receipt,
                    gasUsed = digits (rc_gasUsed receipt), status = Confirmed\<rparr>))"

definition revokeRole ::
  "contract \<Rightarrow> contract_config \<Rightarrow> string \<Rightarrow> string \<Rightarrow> js_error + TransactionResult" where
  "revokeRole c config role account =
     (let roleHash = ethers_id c role in
      case c_send c (RevokeRoleCall roleHash account) (config_overrides config) of
        Inl error \<Rightarrow> Inl (fromEthersError error)
      | Inr tx \<Rightarrow>
          (case tx_wait tx None of
             Inl error \<Rightarrow> Inl (fromEthersError error)
           | Inr receipt \<Rightarrow>
               Inr \<lparr>hash = tx_hash tx, blockNumber = rc_blockNumber receipt,
                    gasUsed = digits (rc_gasUsed receipt), status = Confirmed\<rparr>))"

definition pause :: "contract \<Rightarrow> contract_config \<Rightarrow> js_error + TransactionResult" where
  "pause c config =
     (case c_send c PauseCall (config_overrides config) of
        Inl error \<Rightarrow> Inl (fromEthersError error)
      | Inr tx \<Rightarrow>
          (case tx_wait tx None of
             Inl error \<Rightarrow> Inl (fromEthersError error)
           | Inr receipt \<Rightarrow>
               Inr \<lparr>hash = tx_hash tx, blockNumber = rc_blockNumber receipt,
                    gasUsed = digits (rc_gasUsed receipt), status = Confirmed\<rparr>))"

definition unpause :: "contract \<Rightarrow> contract_config \<Rightarrow> js_error + TransactionResult" where
  "unpause c config =
     (case c_send c UnpauseCall (config_overrides config) of
        Inl error \<Rightarrow> Inl (fromEthersError error)
      | Inr tx \<Rightarrow>
          (case tx_wait tx None of
             Inl error \<Rightarrow> Inl (fromEthersError error)
           | Inr receipt \<Rightarrow>
               Inr \<lparr>hash = tx_hash tx, blockNumber = rc_blockNumber receipt,
                    gasUsed = digits (rc_gasUsed receipt), status = Confirmed\<rparr>))"

text \<open>The eight mutating operations with their arguments, and the method each one is.\<close>

datatype mutating_operation =
    MintLicense MintOptions
  | TransferLicense string string int
  | RevokeLicense int
  | BatchMintLicenses "MintOptions list"
  | GrantRole string string
  | RevokeRole string string
  | Pause
  | Unpause

fun perform ::
  "contract \<Rightarrow> contract_config \<Rightarrow> mutating_operation \<Rightarrow> js_error + TransactionResult" where
  "perform c config (MintLicense options) = mintLicense c config options"
| "perform c config (TransferLicense from to' tokenId') = transferLicense c config from to' tokenId'"
| "perform c config (RevokeLicense tokenId') = revokeLicense c config tokenId'"
| "perform c config (BatchMintLicenses licenses) = batchMintLicenses c config licenses"
| "perform c config (GrantRole role account) = grantRole c config role account"
| "perform c config (RevokeRole role account) = revokeRole c config role account"
| "perform c config Pause = pause c config"
| "perform c config Unpause = unpause c config"

text \<open>\<open>parseTransactionReceipt\<close> of utils, the one place that reads the receipt's status.\<close>

record ParsedReceipt = TransactionResult +
  logs :: "string list"

definition parseTransactionReceipt :: "tx_receipt \<Rightarrow> ParsedReceipt" where
  "parseTransactionReceipt receipt =
     \<lparr>hash = rc_hash receipt, blockNumber = rc_blockNumber receipt,
      gasUsed = digits (rc_gasUsed receipt),
      status = (if rc_status receipt = 1 then Confirmed else Failed),
      logs = rc_logs receipt\<rparr>"

subsection \<open>Gas estimation\<close>

text \<open>
  \<open>ethers.formatEther\<close>: the amount in wei written in ether, the whole part, a point,
  and the 18-digit fraction with its trailing zeros removed down to one digit
  (\<open>formatEther(10n ** 18n)\<close> is \<open>1.0\<close>).
\<close>

definition strip_trailing_zeros :: "string \<Rightarrow> string" where
  "strip_trailing_zeros ds =
     (case rev (dropWhile (\<lambda>c. c = CHR ''0'') (rev ds)) of [] \<Rightarrow> ''0'' | t \<Rightarrow> t)"

definition formatEther :: "nat \<Rightarrow> string" where
  "formatEther wei =
     (let whole = digits (wei div 10 ^ 18);
          fraction = digits (wei mod 10 ^ 18);
          padded = replicate (18 - length fraction) CHR ''0'' @ fraction
      in whole @ ''.'' @ strip_trailing_zeros padded)"

text \<open>\<open>ethers.parseUnits('20', 'gwei')\<close>.\<close>

definition twenty_gwei :: nat where
  "twenty_gwei = 20000000000"

text \<open>
  \<open>gasPrice.gasPrice || ethers.parseUnits('20', 'gwei')\<close>: a fee of \<open>null\<close> or \<open>0n\<close>
  is falsy.
\<close>

definition estimateGasMintLicense :: "contract \<Rightarrow> MintOptions \<Rightarrow> js_error + GasEstimate" where
  "estimateGasMintLicense c options =
     (let metadata' = JSON_stringify (metadata options) in
      case c_estimateGas c (MintLicenseCall (to options) (tokenId options) metadata') of
        Inl error \<Rightarrow> Inl (fromEthersError error)
      | Inr gasEstimate \<Rightarrow>
          (case c_getFeeData c of
             Inl error \<Rightarrow> Inl (fromEthersError error)
           | Inr feeData \<Rightarrow>
               (let gasPriceWei =
                      (case fee_gasPrice feeData of
                         None \<Rightarrow> twenty_gwei
                       | Some p \<Rightarrow> if p = 0 then twenty_gwei else p)
                in Inr \<lparr>gasLimit = digits gasEstimate,
                        gasPrice = digits gasPriceWei,
                        maxFeePerGas = None,
                        maxPriorityFeePerGas = None,
                        totalCost = formatEther (gasEstimate * gasPriceWei)\<rparr>)))"

text \<open>
  \<open>calculateGasCost\<close> of utils, on the two amounts its arguments denote
  (\<open>BigInt(gasLimit)\<close>, \<open>BigInt(gasPrice)\<close>): the product in wei as a decimal string.
\<close>

definition calculateGasCost :: "nat \<Rightarrow> nat \<Rightarrow> string" where
  "calculateGasCost limit price = digits (limit * price)"

section \<open>Notions the properties are stated with\<close>

subsection \<open>Runs of a retried operation\<close>

text \<open>
  \<open>fails_then_succeeds P fn s k\<close>: started in state \<open>s\<close>, the operation rejects exactly
  \<open>k\<close> times, each time with a cause satisfying \<open>P\<close>, and then resolves; the result is
  the value and the final state.
\<close>

fun fails_then_succeeds ::
  "('e \<Rightarrow> bool) \<Rightarrow> ('s \<Rightarrow> ('e + 'a) \<times> 's) \<Rightarrow> 's \<Rightarrow> nat \<Rightarrow> ('a \<times> 's) option" where
  "fails_then_succeeds P fn s 0 =
     (case fn s of (Inr v, s') \<Rightarrow> Some (v, s') | (Inl e, s') \<Rightarrow> None)"
| "fails_then_succeeds P fn s (Suc k) =
     (case fn s of
        (Inr v, s') \<Rightarrow> None
      | (Inl e, s') \<Rightarrow> if P e then fails_then_succeeds P fn s' k else None)"

text \<open>
  \<open>all_fail fn s n\<close>: the first \<open>n \<ge> 1\<close> invocations from state \<open>s\<close> all reject,
  whatever the causes; the result is the last cause and the final state.
\<close>

fun all_fail :: "('s \<Rightarrow> ('e + 'a) \<times> 's) \<Rightarrow> 's \<Rightarrow> nat \<Rightarrow> ('e \<times> 's) option" where
  "all_fail fn s 0 = None"
| "all_fail fn s (Suc n) =
     (case fn s of
        (Inr v, s') \<Rightarrow> None
      | (Inl e, s') \<Rightarrow> if n = 0 then Some (e, s') else all_fail fn s' n)"

text \<open>
  \<open>failed_attempts baseDelay i k\<close>: the events of \<open>k\<close> failed attempts in a row, the
  first of them in iteration \<open>i\<close>: each is an invocation followed by the sleep of its
  iteration, \<open>baseDelay * 2^j\<close>.
\<close>

definition failed_attempts :: "int \<Rightarrow> nat \<Rightarrow> nat \<Rightarrow> retry_event list" where
  "failed_attempts baseDelay i k =
     concat (map (\<lambda>j. [Invoked, Slept (baseDelay * 2 ^ j)]) [i..<i + k])"

text \<open>How often the operation was invoked, and the delays slept, in order.\<close>

definition calls :: "retry_event list \<Rightarrow> nat" where
  "calls es = length (filter (\<lambda>e. e = Invoked) es)"

fun sleeps :: "retry_event list \<Rightarrow> int list" where
  "sleeps [] = []"
| "sleeps (Invoked # es) = sleeps es"
| "sleeps (Slept d # es) = d # sleeps es"

text \<open>
  Two operations on a call counter: one that is unreachable twice and then answers 42,
  one that always reports insufficient funds.
\<close>

definition flaky :: "nat \<Rightarrow> (js_error + nat) \<times> nat" where
  "flaky n =
     (if n < 2 then Inl (JsError (Some (CodeString ''NETWORK_ERROR'')) None) else Inr 42, Suc n)"

definition insufficient_funds :: js_error where
  "insufficient_funds = JsError (Some (CodeString ''INSUFFICIENT_FUNDS'')) (Some ''insufficient funds'')"

definition always_insufficient :: "nat \<Rightarrow> (js_error + nat) \<times> nat" where
  "always_insufficient n = (Inl insufficient_funds, Suc n)"

subsection \<open>The submission of an operation\<close>

text \<open>The contract call a mutating operation submits.\<close>

fun call_of :: "contract \<Rightarrow> mutating_operation \<Rightarrow> contract_call" where
  "call_of c (MintLicense options) =
     MintLicenseCall (to options) (tokenId options) (JSON_stringify (metadata options))"
| "call_of c (TransferLicense from to' tokenId') = TransferLicenseCall from to' tokenId'"
| "call_of c (RevokeLicense tokenId') = RevokeLicenseCall tokenId'"
| "call_of c (BatchMintLicenses licenses) =
     BatchMintLicensesCall (map to licenses) (map tokenId licenses)
       (map (\<lambda>l. JSON_stringify (metadata l)) licenses)"
| "call_of c (GrantRole role account) = GrantRoleCall (ethers_id c role) account"
| "call_of c (RevokeRole role account) = RevokeRoleCall (ethers_id c role) account"
| "call_of c Pause = PauseCall"
| "call_of c Unpause = UnpauseCall"

text \<open>The result every mutating method builds from the response and the receipt.\<close>

definition confirmed_result :: "tx_response \<Rightarrow> tx_receipt \<Rightarrow> TransactionResult" where
  "confirmed_result tx receipt =
     \<lparr>hash = tx_hash tx, blockNumber = rc_blockNumber receipt,
      gasUsed = digits (rc_gasUsed receipt), status = Confirmed\<rparr>"

text \<open>
  A transaction that was mined and has one confirmation: \<open>wait()\<close> and \<open>wait(1)\<close>
  resolve, a deeper wait does not. A contract that answers every submission with it, and
  a config that asks for 12 confirmations.
\<close>

definition shallow_receipt :: tx_receipt where
  "shallow_receipt =
     \<lparr>rc_hash = ''0xabc'', rc_blockNumber = 100, rc_gasUsed = 21000, rc_status = 1,
      rc_logs = []\<rparr>"

definition shallow_tx :: tx_response where
  "shallow_tx =
     \<lparr>tx_hash = ''0xabc'',
      tx_wait = (\<lambda>confirms.
        case confirms of
          None \<Rightarrow> Inr shallow_receipt
        | Some d \<Rightarrow> if d \<le> 1 then Inr shallow_receipt
                    else Inl (JsError (Some (CodeString ''TIMEOUT'')) (Some ''timeout'')))\<rparr>"

definition shallow_contract :: contract where
  "shallow_contract =
     \<lparr>c_send = (\<lambda>call ov. Inr shallow_tx),
      c_estimateGas = (\<lambda>call. Inr 21000),
      c_getFeeData = Inr \<lparr>fee_gasPrice = Some 20000000000\<rparr>,
      ethers_id = (\<lambda>role. role)\<rparr>"

text \<open>
  A transaction whose receipt reports an on-chain failure (status 0) and whose \<open>wait()\<close>
  nevertheless resolves with that receipt, and a contract that answers every submission
  with it.
\<close>

definition reverted_receipt :: tx_receipt where
  "reverted_receipt =
     \<lparr>rc_hash = ''0xdef'', rc_blockNumber = 101, rc_gasUsed = 21000, rc_status = 0,
      rc_logs = []\<rparr>"

definition reverted_tx :: tx_response where
  "reverted_tx = \<lparr>tx_hash = ''0xdef'', tx_wait = (\<lambda>confirms. Inr reverted_receipt)\<rparr>"

definition reverting_contract :: contract where
  "reverting_contract =
     \<lparr>c_send = (\<lambda>call ov. Inr reverted_tx),
      c_estimateGas = (\<lambda>call. Inr 21000),
      c_getFeeData = Inr \<lparr>fee_gasPrice = None\<rparr>,
      ethers_id = (\<lambda>role. role)\<rparr>"

definition deep_config :: contract_config where
  "deep_config = \<lparr>cfg_gasLimit = None, cfg_gasPrice = None, cfg_confirmations = Some 12\<rparr>"

definition basic_options :: MintOptions where
  "basic_options =
     \<lparr>to = ''0xABCD'', tokenId = 1,
      metadata = metadata_object \<lparr>software = ''App'', version = ''1.0.0'',
                   features = [''basic''], expiresAt = None, customData = None\<rparr>\<rparr>"

subsection \<open>The fee in use\<close>

text \<open>The price \<open>estimateGasMintLicense\<close> multiplies with: the fee data's, or 20 gwei.\<close>

definition effective_gas_price :: "fee_data \<Rightarrow> nat" where
  "effective_gas_price feeData =
     (case fee_gasPrice feeData of
        None \<Rightarrow> twenty_gwei
      | Some p \<Rightarrow> if p = 0 then twenty_gwei else p)"

subsection \<open>Values that JSON text can carry\<close>









text \<open>
  Auxiliary notions of the round-trip proof: the text that may follow a value inside
  serialized JSON, the text of an array element and of an object member, the first
  character of a value's text, and the statement proved by induction on the value.
\<close>

definition delimited :: "string \<Rightarrow> bool" where
  "delimited rest =
     (case rest of [] \<Rightarrow> True | c # cs \<Rightarrow> c = CHR '','' \<or> c = CHR '']'' \<or> c = CHR ''}'')"





section \<open>Properties of the retry wrapper\<close>

lemma failed_attempts_0 [simp]: "failed_attempts d i 0 = []"
  by (simp add: failed_attempts_def)

lemma failed_attempts_Suc:
  "failed_attempts d i (Suc k) = Invoked # Slept (d * 2 ^ i) # failed_attempts d (Suc i) k"
  by (simp add: failed_attempts_def upt_conv_Cons)

lemma calls_simps [simp]:
  "calls [] = 0" "calls (Invoked # es) = Suc (calls es)" "calls (Slept d # es) = calls es"
  "calls (es @ fs) = calls es + calls fs"
  by (simp_all add: calls_def)

lemma calls_failed_attempts: "calls (failed_attempts d i k) = k"
  by (induction k arbitrary: i) (simp_all add: failed_attempts_Suc)

lemma sleeps_failed_attempts:
  "sleeps (failed_attempts d i k @ es) = map (\<lambda>j. d * 2 ^ j) [i..<i + k] @ sleeps es"
  by (induction k arbitrary: i) (simp_all add: failed_attempts_Suc upt_conv_Cons)

lemma sum_list_backoff:
  "sum_list (map (\<lambda>j. d * 2 ^ j) [0..<k]) = (d :: int) * (\<Sum>i<k. 2 ^ i)"
  by (induction k) (simp_all add: algebra_simps)

text \<open>
  The loop from iteration \<open>i\<close> on, when the operation fails \<open>k\<close> more times and then
  succeeds within the attempts that are left.
\<close>

lemma retry_loop_success:
  "fails_then_succeeds P fn (op_state w) k = Some (v, s') \<Longrightarrow> int (i + k) < maxRetries \<Longrightarrow>
   retry_loop fn maxRetries baseDelay i lastError w =
     (Inr v, w\<lparr>op_state := s',
               events := events w @ failed_attempts baseDelay i k @ [Invoked]\<rparr>)"
proof (induction k arbitrary: i lastError w)
  case 0
  then show ?case
    by (subst retry_loop.simps) (auto split: sum.splits prod.splits)
next
  case (Suc k)
  from Suc.prems(1) obtain e s1 where
    step: "fn (op_state w) = (Inl e, s1)" and
    rest: "fails_then_succeeds P fn s1 k = Some (v, s')"
    by (auto split: sum.splits prod.splits if_splits)
  let ?w = "w\<lparr>op_state := s1, events := events w @ [Invoked, Slept (baseDelay * 2 ^ i)]\<rparr>"
  have "retry_loop fn maxRetries baseDelay (i + 1) (Some e) ?w =
     (Inr v, ?w\<lparr>op_state := s',
               events := events ?w @ failed_attempts baseDelay (i + 1) k @ [Invoked]\<rparr>)"
    using Suc.prems(2) rest by (intro Suc.IH) auto
  moreover have "int i < maxRetries" "int i \<noteq> maxRetries - 1"
    using Suc.prems(2) by auto
  ultimately show ?case
    using step by (subst retry_loop.simps) (simp add: failed_attempts_Suc)
qed

text \<open>The loop from iteration \<open>i\<close> on, when every attempt that is left fails.\<close>

lemma retry_loop_exhausted:
  "all_fail fn (op_state w) n = Some (e, s') \<Longrightarrow> maxRetries = int (i + n) \<Longrightarrow>
   retry_loop fn maxRetries baseDelay i lastError w =
     (Inl (Some e), w\<lparr>op_state := s',
               events := events w @ failed_attempts baseDelay i (n - 1) @ [Invoked]\<rparr>)"
proof (induction n arbitrary: i lastError w)
  case 0
  then show ?case by simp
next
  case (Suc n)
  from Suc.prems(1) obtain e1 s1 where
    step: "fn (op_state w) = (Inl e1, s1)"
    by (auto split: sum.splits prod.splits if_splits)
  show ?case
  proof (cases "n = 0")
    case True
    with Suc.prems step show ?thesis
      by (subst retry_loop.simps) auto
  next
    case False
    then obtain m where m: "n = Suc m" by (cases n) auto
    from Suc.prems(1) step False have rest: "all_fail fn s1 n = Some (e, s')" by simp
    let ?w = "w\<lparr>op_state := s1, events := events w @ [Invoked, Slept (baseDelay * 2 ^ i)]\<rparr>"
    have "retry_loop fn maxRetries baseDelay (i + 1) (Some e1) ?w =
       (Inl (Some e), ?w\<lparr>op_state := s',
               events := events ?w @ failed_attempts baseDelay (i + 1) (n - 1) @ [Invoked]\<rparr>)"
      using Suc.prems(2) rest by (intro Suc.IH) auto
    moreover have "int i < maxRetries" "int i \<noteq> maxRetries - 1"
      using Suc.prems(2) False by auto
    ultimately show ?thesis
      using step m by (subst retry_loop.simps) (simp add: failed_attempts_Suc)
  qed
qed

lemma insufficient_funds_not_retryable: "\<not> isRetryableError insufficient_funds"
  by (simp add: isRetryableError_def retryableErrors_def insufficient_funds_def)

lemma always_insufficient_fails:
  "all_fail always_insufficient s (Suc n) = Some (insufficient_funds, s + Suc n)"
  by (induction n arbitrary: s) (simp_all add: always_insufficient_def)

text \<open>
  C2, as the claim states it, fails: the wrapper never consults \<open>isRetryableError\<close>.
  An operation that reports insufficient funds, a cause that is not retryable, is invoked
  three times under \<open>maxAttempts = 3\<close>, with a sleep of 1000 after the first failure
  and one of 2000 after the second, before the failure is propagated.
\<close>

theorem non_retryable_failure_is_retried:
  "\<not> isRetryableError insufficient_funds
   \<and> fst (always_insufficient 0) = Inl insufficient_funds
   \<and> retryWithBackoff always_insufficient 3 1000 0
       = (Inl (Some insufficient_funds),
          \<lparr>op_state = 3,
           events = [Invoked, Slept 1000, Invoked, Slept 2000, Invoked]\<rparr>)
   \<and> calls (events (snd (retryWithBackoff always_insufficient 3 1000 0))) = 3
   \<and> sleeps (events (snd (retryWithBackoff always_insufficient 3 1000 0))) = [1000, 2000]"
proof -
  have "all_fail always_insufficient 0 3 = Some (insufficient_funds, 3)"
    using always_insufficient_fails [of 0 2] by (simp add: numeral_3_eq_3)
  then have "retryWithBackoff always_insufficient 3 1000 0
       = (Inl (Some insufficient_funds),
          \<lparr>op_state = 3, events = failed_attempts 1000 0 2 @ [Invoked]\<rparr>)"
    unfolding retryWithBackoff_def
    using retry_loop_exhausted [where fn = always_insufficient and i = 0 and n = 3
        and maxRetries = 3 and baseDelay = 1000 and lastError = None
        and w = "\<lparr>op_state = 0, events = []\<rparr>"]
    by simp
  moreover have "failed_attempts 1000 0 2 = [Invoked, Slept 1000, Invoked, Slept 2000]"
    by (simp add: failed_attempts_def numeral_2_eq_2)
  ultimately show ?thesis
    by (simp add: insufficient_funds_not_retryable always_insufficient_def)
qed

text \<open>
  C2, amended: the wrapper treats every cause alike, retryable or not. An operation whose
  first \<open>maxAttempts \<ge> 1\<close> attempts all fail is invoked exactly \<open>maxAttempts\<close> times,
  with a sleep of \<open>baseDelay * 2^i\<close> after the failure of attempt \<open>i\<close> and before the
  next invocation, except after the last, and then the last cause is propagated
  unchanged. So a failure is propagated after the first attempt, with no second
  invocation, exactly when \<open>maxAttempts = 1\<close>.
\<close>

theorem retry_makes_every_attempt_whatever_the_cause:
  assumes "all_fail fn s n = Some (e, s')"
  shows "retryWithBackoff fn (int n) baseDelay s =
           (Inl (Some e),
            \<lparr>op_state = s',
             events = concat (map (\<lambda>i. [Invoked, Slept (baseDelay * 2 ^ i)]) [0..<n - 1])
                        @ [Invoked]\<rparr>)
         \<and> calls (events (snd (retryWithBackoff fn (int n) baseDelay s))) = n
         \<and> sleeps (events (snd (retryWithBackoff fn (int n) baseDelay s)))
             = map (\<lambda>i. baseDelay * 2 ^ i) [0..<n - 1]"
proof -
  from assms have n: "0 < n" by (cases n) auto
  have run: "retryWithBackoff fn (int n) baseDelay s =
           (Inl (Some e),
            \<lparr>op_state = s', events = failed_attempts baseDelay 0 (n - 1) @ [Invoked]\<rparr>)"
    unfolding retryWithBackoff_def
    using retry_loop_exhausted [where fn = fn and i = 0 and n = n and maxRetries = "int n"
        and w = "\<lparr>op_state = s, events = []\<rparr>"] assms
    by simp
  show ?thesis
    using n by (simp add: run calls_failed_attempts sleeps_failed_attempts)
               (simp add: failed_attempts_def)
qed

theorem retry_makes_every_attempt_witness:
  "all_fail always_insufficient 0 1 = Some (insufficient_funds, 1)
   \<and> \<not> isRetryableError insufficient_funds
   \<and> retryWithBackoff always_insufficient 1 1000 0
       = (Inl (Some insufficient_funds), \<lparr>op_state = 1, events = [Invoked]\<rparr>)
   \<and> calls (events (snd (retryWithBackoff always_insufficient 1 1000 0))) = 1
   \<and> sleeps (events (snd (retryWithBackoff always_insufficient 1 1000 0))) = []"
proof -
  have h: "all_fail always_insufficient 0 1 = Some (insufficient_funds, 1)"
    by (simp add: always_insufficient_def)
  show ?thesis
    using retry_makes_every_attempt_whatever_the_cause [OF h, of 1000] h
    by (simp add: insufficient_funds_not_retryable)
qed

text \<open>
  C7: an operation that fails with a retryable cause exactly \<open>k\<close> times and then succeeds,
  with \<open>k < maxAttempts\<close>, makes the wrapper return the success value after \<open>k + 1\<close>
  invocations. The events of the run, in order, are: for \<open>i = 0, ..., k - 1\<close> the
  invocation that fails and then the sleep of \<open>baseDelay * 2^i\<close>, and last the
  invocation that succeeds. So every retry is preceded by the sleep of its iteration,
  the sleeps are \<open>baseDelay * 2^i\<close> for \<open>i = 0, ..., k - 1\<close> in this order, and they add
  up to \<open>baseDelay * (2^0 + ... + 2^(k-1))\<close>.
\<close>

theorem retry_succeeds_after_retryable_failures:
  assumes "fails_then_succeeds isRetryableError fn s k = Some (v, s')"
    and "int k < maxAttempts"
  shows "retryWithBackoff fn maxAttempts baseDelay s =
           (Inr v,
            \<lparr>op_state = s',
             events = concat (map (\<lambda>i. [Invoked, Slept (baseDelay * 2 ^ i)]) [0..<k])
                        @ [Invoked]\<rparr>)
         \<and> calls (events (snd (retryWithBackoff fn maxAttempts baseDelay s))) = Suc k
         \<and> sleeps (events (snd (retryWithBackoff fn maxAttempts baseDelay s)))
             = map (\<lambda>i. baseDelay * 2 ^ i) [0..<k]
         \<and> sum_list (sleeps (events (snd (retryWithBackoff fn maxAttempts baseDelay s))))
             = baseDelay * (\<Sum>i<k. 2 ^ i)"
proof -
  have run: "retryWithBackoff fn maxAttempts baseDelay s =
           (Inr v, \<lparr>op_state = s', events = failed_attempts baseDelay 0 k @ [Invoked]\<rparr>)"
    unfolding retryWithBackoff_def
    using retry_loop_success [where P = isRetryableError and fn = fn and k = k and i = 0
        and w = "\<lparr>op_state = s, events = []\<rparr>"] assms
    by simp
  show ?thesis
    by (simp add: run calls_failed_attempts sleeps_failed_attempts sum_list_backoff)
       (simp add: failed_attempts_def)
qed

theorem retry_succeeds_after_retryable_failures_witness:
  "fails_then_succeeds isRetryableError flaky 0 2 = Some (42, 3) \<and> (2::int) < 3
   \<and> retryWithBackoff flaky 3 1000 0
       = (Inr 42, \<lparr>op_state = 3,
                   events = [Invoked, Slept 1000, Invoked, Slept 2000, Invoked]\<rparr>)
   \<and> calls (events (snd (retryWithBackoff flaky 3 1000 0))) = 3
   \<and> sleeps (events (snd (retryWithBackoff flaky 3 1000 0))) = [1000, 2000]
   \<and> sum_list (sleeps (events (snd (retryWithBackoff flaky 3 1000 0)))) = 3000"
proof -
  have h: "fails_then_succeeds isRetryableError flaky 0 2 = Some (42, 3)"
    by (simp add: numeral_2_eq_2 flaky_def isRetryableError_def retryableErrors_def)
  show ?thesis
    using retry_succeeds_after_retryable_failures [OF h, of 3 1000] h
    by (simp add: numeral_2_eq_2 numeral_3_eq_3)
qed

text \<open>
  C10: with \<open>maxAttempts = 0\<close> the loop body never runs. The operation is not invoked,
  nothing is slept (the run has no events), and the wrapper rejects with the value of
  the unassigned \<open>lastError\<close>, which is \<open>undefined\<close> (\<open>None\<close>) and no error object.
\<close>

theorem retry_zero_attempts_rejects_with_undefined:
  "retryWithBackoff fn 0 baseDelay s = (Inl None, \<lparr>op_state = s, events = []\<rparr>)
   \<and> calls (events (snd (retryWithBackoff fn 0 baseDelay s))) = 0
   \<and> sleeps (events (snd (retryWithBackoff fn 0 baseDelay s))) = []"
proof -
  have "retryWithBackoff fn 0 baseDelay s = (Inl None, \<lparr>op_state = s, events = []\<rparr>)"
    unfolding retryWithBackoff_def by (subst retry_loop.simps) simp
  then show ?thesis by simp
qed

section \<open>Properties of the timeout guard\<close>

text \<open>
  C3, as the claim states it, fails: when the operation never settles, the rejection is
  \<open>new Error('Operation timed out')\<close>. It is no \<open>LicenseChainError\<close>, carries no
  \<open>code\<close>, so its kind is not \<open>TIMEOUT_ERROR\<close>, and \<open>isRetryableError\<close> does not take
  it for a timeout either.
\<close>

theorem timeout_rejection_is_a_plain_error:
  "withTimeout (Never :: nat promise) 1000
     = Settles 1000 (Inl (JsError None (Some ''Operation timed out'')))
   \<and> \<not> is_LicenseChainError (JsError None (Some ''Operation timed out''))
   \<and> kind_of (JsError None (Some ''Operation timed out'')) \<noteq> Some TIMEOUT_ERROR
   \<and> error_code (JsError None (Some ''Operation timed out'')) = None
   \<and> \<not> isRetryableError (JsError None (Some ''Operation timed out''))"
  by (simp add: withTimeout_def timeout_rejection_def timer_delay_def isRetryableError_def
        retryableErrors_def)

text \<open>
  C3, amended: for a limit of at least 1 and at most 2147483647 milliseconds, the range
  in which the timer waits for the limit itself, and an operation that has not settled
  when the limit elapses (it never settles, or settles later), \<open>withTimeout\<close> rejects at
  the limit with a plain \<open>Error\<close> whose message is \<open>Operation timed out\<close>, told from
  other failures by that message only; if the operation settles before the limit, its
  result or failure propagates unchanged.
\<close>

theorem withTimeout_races_operation_against_timer:
  assumes "1 \<le> timeoutMs" and "timeoutMs \<le> 2147483647"
  shows "((case promise of Never \<Rightarrow> True | Settles t r \<Rightarrow> timeoutMs < t) \<longrightarrow>
            withTimeout promise timeoutMs
              = Settles timeoutMs (Inl (JsError None (Some ''Operation timed out''))))
         \<and> (t < timeoutMs \<longrightarrow> withTimeout (Settles t r) timeoutMs = Settles t r)"
  using assms
  by (cases promise) (auto simp: withTimeout_def timeout_rejection_def timer_delay_def)

theorem withTimeout_races_operation_against_timer_witness:
  "(1::nat) \<le> 1000 \<and> (1000::nat) \<le> 2147483647
   \<and> withTimeout (Never :: nat promise) 1000
     = Settles 1000 (Inl (JsError None (Some ''Operation timed out'')))
   \<and> withTimeout (Settles 2000 (Inr (7::nat))) 1000
     = Settles 1000 (Inl (JsError None (Some ''Operation timed out'')))
   \<and> withTimeout (Settles 10 (Inr (7::nat))) 1000 = Settles 10 (Inr 7)
   \<and> withTimeout (Settles 10 (Inl (JsError (Some (CodeString ''CALL_EXCEPTION'')) None)
                                 :: js_error + nat)) 1000
       = Settles 10 (Inl (JsError (Some (CodeString ''CALL_EXCEPTION'')) None))"
proof -
  have lo: "(1::nat) \<le> 1000" and hi: "(1000::nat) \<le> 2147483647" by simp_all
  show ?thesis
    using withTimeout_races_operation_against_timer
            [OF lo hi, where promise = "Never :: nat promise" and t = 10 and r = "Inr (7::nat)"]
      withTimeout_races_operation_against_timer
            [OF lo hi, where promise = "Settles 2000 (Inr (7::nat))" and t = 10
               and r = "Inl (JsError (Some (CodeString ''CALL_EXCEPTION'')) None)
                          :: js_error + nat"]
    by simp
qed

text \<open>
  Outside that range the timer fires after 1 millisecond: with a limit of 0 an operation
  that settles at instant 1 still wins the race, and with a limit above \<open>2^31 - 1\<close> an
  operation that settles at instant 2 loses it.
\<close>

lemma withTimeout_outside_timer_range:
  "withTimeout (Settles 1 (Inr (7::nat))) 0 = Settles 1 (Inr 7)
   \<and> withTimeout (Settles 2 (Inr (7::nat))) 2147483648
       = Settles 1 (Inl (JsError None (Some ''Operation timed out'')))"
  by (simp add: withTimeout_def timeout_rejection_def timer_delay_def)


section \<open>Properties of network resolution\<close>

text \<open>
  C4, as the claim states it, fails: \<open>custom\<close> without an endpoint is refused with
  \<open>new Error('Unsupported network: custom')\<close>, which is no \<open>LicenseChainError\<close> and has
  no kind, while \<open>LicenseChainError.invalidNetwork\<close> is what would carry
  \<open>INVALID_NETWORK\<close>. And the unrecognized name \<open>toString\<close> is not refused at all.
\<close>

theorem unsupported_network_is_a_plain_error:
  "getNetworkConfig ''custom'' None (Some 5)
     = Inl (JsError None (Some ''Unsupported network: custom''))
   \<and> \<not> is_LicenseChainError (JsError None (Some ''Unsupported network: custom''))
   \<and> kind_of (JsError None (Some ''Unsupported network: custom'')) \<noteq> Some INVALID_NETWORK
   \<and> kind_of (invalidNetwork ''custom'') = Some INVALID_NETWORK
   \<and> getNetworkConfig ''toString'' None None = Inr (PrototypeMember ''toString'')"
  by (simp add: getNetworkConfig_def truthy_string_def truthy_number_def configs_def
        object_prototype_members_def invalidNetwork_def)

text \<open>
  C4, amended: with \<open>network = "custom"\<close>, resolution fails whenever the chain id or the
  endpoint is absent (or falsy: a chain id of 0, an empty endpoint), and it fails for
  every name that is neither \<open>custom\<close>, nor one of the six configured networks, nor a
  member of \<open>Object.prototype\<close>; the failure is a plain \<open>Error\<close> with the message
  \<open>Unsupported network: <name>\<close>.
\<close>

theorem getNetworkConfig_refuses_with_plain_error:
  "(network = ''custom'' \<and> (\<not> truthy_number chainId' \<or> \<not> truthy_string rpcUrl') \<longrightarrow>
      getNetworkConfig network rpcUrl' chainId'
        = Inl (JsError None (Some ''Unsupported network: custom'')))
   \<and> (network \<noteq> ''custom'' \<and> network \<notin> fst ` set (configs rpcUrl')
        \<and> network \<notin> set object_prototype_members \<longrightarrow>
      getNetworkConfig network rpcUrl' chainId'
        = Inl (JsError None (Some (''Unsupported network: '' @ network))))"
proof (intro conjI impI)
  assume a: "network = ''custom'' \<and> (\<not> truthy_number chainId' \<or> \<not> truthy_string rpcUrl')"
  have "map_of (configs rpcUrl') ''custom'' = None"
    by (simp add: configs_def)
  moreover have "''custom'' \<notin> set object_prototype_members"
    by (simp add: object_prototype_members_def)
  ultimately show "getNetworkConfig network rpcUrl' chainId'
        = Inl (JsError None (Some ''Unsupported network: custom''))"
    using a by (auto simp: getNetworkConfig_def)
next
  assume a: "network \<noteq> ''custom'' \<and> network \<notin> fst ` set (configs rpcUrl')
        \<and> network \<notin> set object_prototype_members"
  then have "map_of (configs rpcUrl') network = None"
    by (simp add: map_of_eq_None_iff)
  with a show "getNetworkConfig network rpcUrl' chainId'
        = Inl (JsError None (Some (''Unsupported network: '' @ network)))"
    by (simp add: getNetworkConfig_def)
qed

theorem getNetworkConfig_refuses_with_plain_error_witness:
  "truthy_number (Some 5) \<and> \<not> truthy_string None
   \<and> getNetworkConfig ''custom'' None (Some 5)
       = Inl (JsError None (Some ''Unsupported network: custom''))
   \<and> getNetworkConfig ''ropsten'' None None
       = Inl (JsError None (Some ''Unsupported network: ropsten''))"
proof -
  have nt: "\<not> truthy_string None" by (simp add: truthy_string_def)
  have r: "''ropsten'' \<noteq> ''custom'' \<and> ''ropsten'' \<notin> fst ` set (configs None)
        \<and> ''ropsten'' \<notin> set object_prototype_members"
    by (simp add: configs_def object_prototype_members_def)
  show ?thesis
    using getNetworkConfig_refuses_with_plain_error [of "''custom''" "Some 5" None]
      getNetworkConfig_refuses_with_plain_error [of "''ropsten''" None None] nt r
    by (simp add: truthy_number_def)
qed

section \<open>Properties of error normalization\<close>

text \<open>
  C5, as the claim states it, fails: there are two normalizers, and neither has the whole
  mapping. \<open>fromRpcError\<close> maps a cause that matches none of its codes (4001, or the
  provider code \<open>INSUFFICIENT_FUNDS\<close>) to \<open>RPC_ERROR\<close>, not to \<open>UNKNOWN_ERROR\<close>;
  \<open>fromEthersError\<close>, the one the facade calls, maps the RPC code -32602 to
  \<open>UNKNOWN_ERROR\<close>, not to \<open>VALIDATION_ERROR\<close>.
\<close>

theorem normalizers_disagree_on_unmatched_causes:
  "kind_of (fromRpcError (JsError (Some (CodeNumber 4001)) (Some ''User rejected the request'')))
     = Some RPC_ERROR
   \<and> kind_of (fromRpcError (JsError (Some (CodeString ''INSUFFICIENT_FUNDS'')) None))
     = Some RPC_ERROR
   \<and> kind_of (fromEthersError (JsError (Some (CodeNumber (- 32602))) None))
     = Some UNKNOWN_ERROR"
  by (simp add: fromEthersError_def fromRpcError_def)

text \<open>
  C5, amended: \<open>fromEthersError\<close> maps the provider codes \<open>INSUFFICIENT_FUNDS\<close>,
  \<open>UNPREDICTABLE_GAS_LIMIT\<close>, \<open>CALL_EXCEPTION\<close> and \<open>NETWORK_ERROR\<close> to
  \<open>INSUFFICIENT_FUNDS\<close>, \<open>GAS_ESTIMATION_FAILED\<close>, \<open>TRANSACTION_REVERTED\<close> and
  \<open>NETWORK_ERROR\<close>, and every other cause to \<open>UNKNOWN_ERROR\<close>; \<open>fromRpcError\<close>
  maps the RPC code -32602 to \<open>VALIDATION_ERROR\<close>, -32000 to \<open>TRANSACTION_FAILED\<close>,
  and -32603 and every other cause to \<open>RPC_ERROR\<close>. Both keep the original cause under
  \<open>details.originalError\<close>, and the kind is a function of the cause's \<open>code\<close> alone.
\<close>

theorem normalizers_map_codes_and_keep_cause:
  "kind_of (fromEthersError error) =
     Some (if error_code error = Some (CodeString ''INSUFFICIENT_FUNDS'') then INSUFFICIENT_FUNDS
           else if error_code error = Some (CodeString ''UNPREDICTABLE_GAS_LIMIT'')
             then GAS_ESTIMATION_FAILED
           else if error_code error = Some (CodeString ''CALL_EXCEPTION'') then TRANSACTION_REVERTED
           else if error_code error = Some (CodeString ''NETWORK_ERROR'') then NETWORK_ERROR
           else UNKNOWN_ERROR)
   \<and> kind_of (fromRpcError error) =
     Some (if error_code error = Some (CodeNumber (- 32602)) then VALIDATION_ERROR
           else if error_code error = Some (CodeNumber (- 32000)) then TRANSACTION_FAILED
           else RPC_ERROR)
   \<and> details_of (fromEthersError error) = OriginalError error
   \<and> details_of (fromRpcError error) = OriginalError error"
  by (simp add: fromEthersError_def fromRpcError_def)

section \<open>Properties of the contract facade\<close>

text \<open>Every mutating method is the same submit-then-wait sequence on its own call.\<close>

lemma perform_eq:
  "perform c config operation =
     (case c_send c (call_of c operation) (config_overrides config) of
        Inl error \<Rightarrow> Inl (fromEthersError error)
      | Inr tx \<Rightarrow>
          (case tx_wait tx None of
             Inl error \<Rightarrow> Inl (fromEthersError error)
           | Inr receipt \<Rightarrow> Inr (confirmed_result tx receipt)))"
  by (cases operation)
     (simp_all add: mintLicense_def transferLicense_def revokeLicense_def batchMintLicenses_def
        grantRole_def revokeRole_def pause_def unpause_def confirmed_result_def Let_def
      split: sum.splits)

lemma config_overrides_confirmations [simp]:
  "config_overrides (config\<lparr>cfg_confirmations := depth\<rparr>) = config_overrides config"
  by (simp add: config_overrides_def)

lemma digit_char_values:
  "digit_char 0 = CHR ''0''" "digit_char 1 = CHR ''1''" "digit_char 2 = CHR ''2''"
  "digit_char 3 = CHR ''3''" "digit_char 4 = CHR ''4''" "digit_char 5 = CHR ''5''"
  "digit_char 6 = CHR ''6''" "digit_char 7 = CHR ''7''" "digit_char 8 = CHR ''8''"
  "digit_char 9 = CHR ''9''" "digit_char (Suc 0) = CHR ''1''"
  by code_simp+

lemma digits_21000: "digits 21000 = ''21000''"
  by (simp add: digits.simps digit_char_values)

text \<open>
  C1, as the claim states it, fails: the config asks for 12 confirmations, the
  transaction never gets deeper than one (a wait for 12 does not resolve), and
  \<open>mintLicense\<close> still returns a result with status \<open>confirmed\<close>.
\<close>

theorem confirmed_without_the_configured_depth:
  "perform shallow_contract deep_config (MintLicense basic_options)
     = Inr \<lparr>hash = ''0xabc'', blockNumber = 100, gasUsed = ''21000'', status = Confirmed\<rparr>
   \<and> cfg_confirmations deep_config = Some 12
   \<and> tx_wait shallow_tx (cfg_confirmations deep_config)
       = Inl (JsError (Some (CodeString ''TIMEOUT'')) (Some ''timeout''))"
  by (simp add: mintLicense_def shallow_contract_def shallow_tx_def shallow_receipt_def
        deep_config_def basic_options_def Let_def digits_21000)

text \<open>
  C1, amended: no mutating operation reads the \<open>confirmations\<close> field of the config (its
  outcome is the same for every value of the field). A returned \<open>TransactionResult\<close> has
  status \<open>confirmed\<close>, never \<open>pending\<close>, and is produced only after \<open>wait()\<close>, called
  without a depth and so with the client library's default, has resolved on the submitted
  transaction.
\<close>

theorem confirmed_after_wait_without_depth:
  "perform c (config\<lparr>cfg_confirmations := depth\<rparr>) operation = perform c config operation
   \<and> (\<forall>result. perform c config operation = Inr result \<longrightarrow>
         status result = Confirmed \<and> status result \<noteq> Pending
         \<and> (\<exists>tx receipt.
               c_send c (call_of c operation) (config_overrides config) = Inr tx
               \<and> tx_wait tx None = Inr receipt
               \<and> result = confirmed_result tx receipt))"
  by (auto simp: perform_eq confirmed_result_def split: sum.splits)

theorem confirmed_after_wait_without_depth_witness:
  "perform shallow_contract (deep_config\<lparr>cfg_confirmations := None\<rparr>) Pause
     = perform shallow_contract deep_config Pause
   \<and> perform shallow_contract deep_config Pause
       = Inr (confirmed_result shallow_tx shallow_receipt)
   \<and> status (confirmed_result shallow_tx shallow_receipt) = Confirmed
   \<and> tx_wait shallow_tx None = Inr shallow_receipt"
proof -
  have run: "perform shallow_contract deep_config Pause
               = Inr (confirmed_result shallow_tx shallow_receipt)"
    by (simp add: pause_def shallow_contract_def shallow_tx_def confirmed_result_def)
  show ?thesis
    using confirmed_after_wait_without_depth
            [where c = shallow_contract and config = deep_config and depth = None
               and operation = Pause] run
    by (simp add: shallow_tx_def confirmed_result_def)
qed

text \<open>
  C9: whenever the submission resolves to a transaction and \<open>wait()\<close> on it resolves to
  a receipt, the mutating method returns a result with status \<open>confirmed\<close>, whatever the
  receipt's own status field holds; \<open>pending\<close> and \<open>failed\<close> are never produced. The
  helper \<open>parseTransactionReceipt\<close>, which no method calls, is what would report
  \<open>failed\<close> for a receipt status other than 1. (Whether \<open>wait()\<close> resolves for such
  a receipt is up to the client library; the statement is about the case that it does.)
\<close>

theorem confirmed_whatever_the_receipt_status:
  assumes "c_send c (call_of c operation) (config_overrides config) = Inr tx"
    and "tx_wait tx None = Inr receipt"
  shows "perform c config operation = Inr (confirmed_result tx receipt)
         \<and> status (confirmed_result tx receipt) = Confirmed
         \<and> (\<forall>result. perform c config operation = Inr result \<longrightarrow>
               status result \<noteq> Pending \<and> status result \<noteq> Failed)
         \<and> status (parseTransactionReceipt receipt)
             = (if rc_status receipt = 1 then Confirmed else Failed)"
  using assms by (simp add: perform_eq confirmed_result_def parseTransactionReceipt_def)

theorem confirmed_whatever_the_receipt_status_witness:
  "c_send reverting_contract (call_of reverting_contract Pause) (config_overrides deep_config)
     = Inr reverted_tx
   \<and> tx_wait reverted_tx None = Inr reverted_receipt
   \<and> rc_status reverted_receipt = 0
   \<and> perform reverting_contract deep_config Pause
       = Inr (confirmed_result reverted_tx reverted_receipt)
   \<and> status (confirmed_result reverted_tx reverted_receipt) = Confirmed
   \<and> status (parseTransactionReceipt reverted_receipt) = Failed"
proof -
  have sent: "c_send reverting_contract (call_of reverting_contract Pause)
                (config_overrides deep_config) = Inr reverted_tx"
    by (simp add: reverting_contract_def)
  have waited: "tx_wait reverted_tx None = Inr reverted_receipt"
    by (simp add: reverted_tx_def)
  show ?thesis
    using confirmed_whatever_the_receipt_status [OF sent waited] sent waited
    by (simp add: reverted_receipt_def)
qed

section \<open>Properties of metadata serialization\<close>

subsection \<open>Numbers\<close>

lemma delimited_simps [simp]:
  "delimited []" "delimited (CHR '','' # cs)" "delimited (CHR '']'' # cs)"
  "delimited (CHR ''}'' # cs)"
  by (simp_all add: delimited_def)

lemma is_digit_digit_char: "d < 10 \<Longrightarrow> is_digit (digit_char d)"
  by (simp add: is_digit_def digit_char_def)



lemma digits_all_digits: "list_all is_digit (digits n)"
proof (induction n rule: digits.induct)
  case (1 n)
  show ?case
  proof (cases "n < 10")
    case True
    then show ?thesis by (subst digits.simps) (simp add: is_digit_digit_char)
  next
    case False
    with 1 show ?thesis by (subst digits.simps) (simp add: is_digit_digit_char)
  qed
qed












subsection \<open>Strings\<close>



lemma string_cons_Inr [simp]: "string_cons c (Inr (str, rest)) = Inr (c # str, rest)"
  by (simp add: string_cons_def)




subsection \<open>How the text of a value starts\<close>


lemma skip_ws_punct [simp]:
  "skip_ws (CHR '','' # cs) = CHR '','' # cs"
  "skip_ws (CHR '']'' # cs) = CHR '']'' # cs"
  "skip_ws (CHR ''}'' # cs) = CHR ''}'' # cs"
  "skip_ws (CHR '':'' # cs) = CHR '':'' # cs"
  "skip_ws (dquote # cs) = dquote # cs"
  by (simp_all add: skip_ws_def is_ws_def dquote_def)









subsection \<open>Atoms, array elements and object members\<close>














subsection \<open>Every serialized value parses back\<close>








subsection \<open>The recursion bound is never reached\<close>

lemma skip_ws_Cons_length: "skip_ws s = c # cs \<Longrightarrow> length cs < length s"
proof -
  assume a: "skip_ws s = c # cs"
  have "length (skip_ws s) \<le> length s"
    by (simp add: skip_ws_def length_dropWhile_le)
  with a show ?thesis by simp
qed

lemma string_cons_InrD:
  "string_cons c r = Inr (str, rest) \<Longrightarrow> \<exists>str'. r = Inr (str', rest)"
  by (auto simp: string_cons_def split: sum.splits)

lemma parse_string_chars_consumes:
  "parse_string_chars cs = Inr (str, rest) \<Longrightarrow> length rest < length cs"
proof (induction "length cs" arbitrary: cs str rule: less_induct)
  case less
  have IH: "length rest < length xs"
    if "parse_string_chars xs = Inr (str', rest)" "length xs < length cs" for xs str'
    using less.hyps [OF that(2) that(1)] .
  show ?case
  proof (cases cs)
    case Nil
    with less.prems show ?thesis by simp
  next
    case (Cons c cs')
    consider (quote) "c = dquote"
      | (escape) "c \<noteq> dquote" "c = backslash"
      | (plain) "c \<noteq> dquote" "c \<noteq> backslash"
      by blast
    then show ?thesis
    proof cases
      case quote
      with less.prems Cons show ?thesis by simp
    next
      case plain
      with less.prems Cons obtain str' where "parse_string_chars cs' = Inr (str', rest)"
        by (auto split: if_splits dest: string_cons_InrD)
      from IH [OF this] Cons show ?thesis by simp
    next
      case escape
      show ?thesis
      proof (cases cs')
        case Nil
        with less.prems Cons escape show ?thesis by simp
      next
        case (Cons e cs'')
        note cs' = this
        show ?thesis
        proof (cases "e = CHR ''u''")
          case False
          with less.prems \<open>cs = c # cs'\<close> cs' escape
          obtain str' where "parse_string_chars cs'' = Inr (str', rest)"
            by (auto split: option.splits dest: string_cons_InrD)
          from IH [OF this] \<open>cs = c # cs'\<close> cs' show ?thesis by simp
        next
          case True
          with less.prems \<open>cs = c # cs'\<close> cs' escape
          obtain h1 h2 h3 h4 r str' where "cs'' = h1 # h2 # h3 # h4 # r"
            and "parse_string_chars r = Inr (str', rest)"
            by (auto simp: Let_def split: list.splits option.splits if_splits
                  dest: string_cons_InrD)
          with IH [of r str'] \<open>cs = c # cs'\<close> cs' show ?thesis by simp
        qed
      qed
    qed
  qed
qed

lemma string_cons_fuel: "r \<noteq> Inl OutOfFuel \<Longrightarrow> string_cons c r \<noteq> Inl OutOfFuel"
  by (auto simp: string_cons_def split: sum.splits)

lemma parse_string_chars_fuel: "parse_string_chars cs \<noteq> Inl OutOfFuel"
proof (induction "length cs" arbitrary: cs rule: less_induct)
  case less
  have IH: "string_cons ch (parse_string_chars xs) \<noteq> Inl OutOfFuel"
    if "length xs < length cs" for xs ch
    using less.hyps [OF that] by (rule string_cons_fuel)
  show ?case
  proof (cases cs)
    case Nil
    then show ?thesis by simp
  next
    case (Cons c cs')
    show ?thesis
    proof (cases cs')
      case Nil
      with Cons show ?thesis by (simp add: string_cons_def)
    next
      case (Cons e cs'')
      with \<open>cs = c # cs'\<close> have cs: "cs = c # e # cs''" by simp
      have t1: "string_cons ch (parse_string_chars (e # cs'')) \<noteq> Inl OutOfFuel" for ch
        using cs by (intro IH) simp
      have t2: "string_cons ch (parse_string_chars cs'') \<noteq> Inl OutOfFuel" for ch
        using cs by (intro IH) simp
      have t6: "string_cons ch (parse_string_chars r) \<noteq> Inl OutOfFuel"
        if "cs'' = h1 # h2 # h3 # h4 # r" for ch h1 h2 h3 h4 r
        using cs that by (intro IH) simp
      consider (quote) "c = dquote"
        | (plain) "c \<noteq> dquote" "c \<noteq> backslash"
        | (escape) "c \<noteq> dquote" "c = backslash" "e \<noteq> CHR ''u''"
        | (short) "c \<noteq> dquote" "c = backslash" "e = CHR ''u''"
            "\<not> (\<exists>h1 h2 h3 h4 r. cs'' = h1 # h2 # h3 # h4 # r)"
        | (unit) h1 h2 h3 h4 r where "c \<noteq> dquote" "c = backslash" "e = CHR ''u''"
            "cs'' = h1 # h2 # h3 # h4 # r"
        by blast
      then show ?thesis
      proof cases
        case quote
        then show ?thesis unfolding cs by simp
      next
        case plain
        then show ?thesis
          unfolding cs
          by (subst parse_string_chars.simps) (simp del: parse_string_chars.simps add: t1)
      next
        case escape
        then show ?thesis
          unfolding cs
          by (subst parse_string_chars.simps)
             (simp del: parse_string_chars.simps add: t2 split: option.splits)
      next
        case short
        then show ?thesis
          unfolding cs
          by (subst parse_string_chars.simps)
             (auto simp del: parse_string_chars.simps split: list.splits)
      next
        case unit
        then show ?thesis
          unfolding cs
          by (subst parse_string_chars.simps)
             (simp del: parse_string_chars.simps add: t6 [OF unit(4)] Let_def
                split: option.splits)
      qed
    qed
  qed
qed

lemma parse_number_consumes:
  assumes "parse_number s = Inr (v, rest)"
  shows "length rest < length s"
proof -
  let ?negative = "(case s of [] \<Rightarrow> False | c # cs \<Rightarrow> c = CHR ''-'')"
  let ?body = "if ?negative then drop 1 s else s"
  from assms have ds: "takeWhile is_digit ?body \<noteq> []" and rest: "rest = dropWhile is_digit ?body"
    by (auto simp: parse_number_def Let_def split: if_splits)
  have "length (takeWhile is_digit ?body) + length (dropWhile is_digit ?body) = length ?body"
    by (metis length_append takeWhile_dropWhile_id)
  with ds rest have "length rest < length ?body"
    by (cases "takeWhile is_digit ?body") auto
  moreover have "length ?body \<le> length s" by simp
  ultimately show ?thesis by simp
qed

lemma parse_number_fuel: "parse_number s \<noteq> Inl OutOfFuel"
  by (simp add: parse_number_def Let_def)

lemma parse_consumes:
  "(\<forall>s v rest. parse_value fuel s = Inr (v, rest) \<longrightarrow> length rest < length s)
   \<and> (\<forall>acc s v rest. parse_elements fuel acc s = Inr (v, rest) \<longrightarrow> length rest < length s)
   \<and> (\<forall>acc s v rest. parse_members fuel acc s = Inr (v, rest) \<longrightarrow> length rest < length s)"
proof (induction fuel)
  case 0
  show ?case by simp
next
  case (Suc f)
  have IHv: "length rest < length s" if "parse_value f s = Inr (v, rest)" for s v rest
    using Suc that by blast
  have IHe: "length rest < length s" if "parse_elements f acc s = Inr (v, rest)" for acc s v rest
    using Suc that by blast
  have IHm: "length rest < length s" if "parse_members f acc s = Inr (v, rest)" for acc s v rest
    using Suc that by blast
  have v: "length rest < length s" if run: "parse_value (Suc f) s = Inr (v, rest)" for s v rest
  proof (cases "skip_ws s")
    case Nil
    with run show ?thesis by simp
  next
    case (Cons c cs)
    note len = skip_ws_Cons_length [OF Cons]
    consider (str) "c = dquote"
      | (arr) "c \<noteq> dquote" "c = CHR ''[''"
      | (obj) "c \<noteq> dquote" "c \<noteq> CHR ''[''" "c = CHR ''{''"
      | (other) "c \<noteq> dquote" "c \<noteq> CHR ''[''" "c \<noteq> CHR ''{''"
      by blast
    then show ?thesis
    proof cases
      case str
      with run Cons obtain t where "parse_string_chars cs = Inr (t, rest)"
        by (auto split: sum.splits)
      from parse_string_chars_consumes [OF this] len show ?thesis by simp
    next
      case arr
      show ?thesis
      proof (cases "skip_ws cs")
        case Nil
        with run \<open>skip_ws s = c # cs\<close> arr show ?thesis by simp
      next
        case (Cons d ds)
        note len' = skip_ws_Cons_length [OF Cons]
        show ?thesis
        proof (cases "d = CHR '']''")
          case True
          with run \<open>skip_ws s = c # cs\<close> arr Cons len len' show ?thesis by simp
        next
          case False
          with run \<open>skip_ws s = c # cs\<close> arr Cons
          have "parse_elements f [] cs = Inr (v, rest)" by simp
          from IHe [OF this] len show ?thesis by simp
        qed
      qed
    next
      case obj
      show ?thesis
      proof (cases "skip_ws cs")
        case Nil
        with run \<open>skip_ws s = c # cs\<close> obj show ?thesis by simp
      next
        case (Cons d ds)
        note len' = skip_ws_Cons_length [OF Cons]
        show ?thesis
        proof (cases "d = CHR ''}''")
          case True
          with run \<open>skip_ws s = c # cs\<close> obj Cons len len' show ?thesis by simp
        next
          case False
          with run \<open>skip_ws s = c # cs\<close> obj Cons
          have "parse_members f [] cs = Inr (v, rest)" by simp
          from IHm [OF this] len show ?thesis by simp
        qed
      qed
    next
      case other
      from run Cons other
      have "rest = drop 4 (c # cs) \<or> rest = drop 5 (c # cs)
              \<or> parse_number (c # cs) = Inr (v, rest)"
        by (simp split: if_splits)
      then show ?thesis
        using len parse_number_consumes [of "c # cs" v rest] by auto
    qed
  qed
  have e: "length rest < length s" if run: "parse_elements (Suc f) acc s = Inr (v, rest)"
    for acc s v rest
  proof (cases "parse_value f s")
    case (Inl failure)
    with run show ?thesis by simp
  next
    case (Inr r)
    obtain x r1 where r: "r = (x, r1)" by (cases r)
    with Inr have r1: "length r1 < length s" by (intro IHv) simp
    show ?thesis
    proof (cases "skip_ws r1")
      case Nil
      with run Inr r show ?thesis by simp
    next
      case (Cons d ds)
      note len = skip_ws_Cons_length [OF Cons]
      from run Inr r Cons
      have "(d = CHR '','' \<and> parse_elements f (acc @ [x]) ds = Inr (v, rest))
              \<or> rest = ds"
        by (simp split: if_splits)
      then show ?thesis
        using len r1 IHe [of "acc @ [x]" ds v rest] by auto
    qed
  qed
  have m: "length rest < length s" if run: "parse_members (Suc f) acc s = Inr (v, rest)"
    for acc s v rest
  proof (cases "skip_ws s")
    case Nil
    with run show ?thesis by simp
  next
    case (Cons c cs)
    note sk = this
    note len = skip_ws_Cons_length [OF sk]
    show ?thesis
    proof (cases "parse_string_chars cs")
      case (Inl failure)
      with run sk show ?thesis by (simp split: if_splits)
    next
      case (Inr kr)
      note key = this
      obtain k r0 where kr: "kr = (k, r0)" by (cases kr)
      with key have r0: "length r0 < length cs" by (intro parse_string_chars_consumes) simp
      show ?thesis
      proof (cases "skip_ws r0")
        case Nil
        with run sk key kr show ?thesis by (simp split: if_splits)
      next
        case (Cons d ds)
        note sk0 = this
        note len0 = skip_ws_Cons_length [OF sk0]
        show ?thesis
        proof (cases "parse_value f ds")
          case (Inl failure)
          with run sk key kr sk0 show ?thesis by (simp split: if_splits)
        next
          case (Inr vr)
          note val = this
          obtain x r1 where vr: "vr = (x, r1)" by (cases vr)
          with val have r1: "length r1 < length ds" by (intro IHv) simp
          show ?thesis
          proof (cases "skip_ws r1")
            case Nil
            with run sk key kr sk0 val vr show ?thesis by (simp split: if_splits)
          next
            case (Cons y ys)
            note len1 = skip_ws_Cons_length [OF Cons]
            from run sk key kr sk0 val vr Cons
            have "(y = CHR '','' \<and> parse_members f (AList.update k x acc) ys = Inr (v, rest))
                    \<or> rest = ys"
              by (simp split: if_splits)
            then show ?thesis
              using len r0 len0 r1 len1 IHm [of "AList.update k x acc" ys v rest] by auto
          qed
        qed
      qed
    qed
  qed
  from v e m show ?case by blast
qed

lemma parse_value_consumes: "parse_value fuel s = Inr (v, rest) \<Longrightarrow> length rest < length s"
  using parse_consumes [of fuel] by blast

lemma parse_never_out_of_fuel:
  "(\<forall>s. 2 * length s < fuel \<longrightarrow> parse_value fuel s \<noteq> Inl OutOfFuel)
   \<and> (\<forall>acc s. 2 * length s + 1 < fuel \<longrightarrow> parse_elements fuel acc s \<noteq> Inl OutOfFuel)
   \<and> (\<forall>acc s. 2 * length s + 1 < fuel \<longrightarrow> parse_members fuel acc s \<noteq> Inl OutOfFuel)"
proof (induction fuel)
  case 0
  show ?case by simp
next
  case (Suc f)
  have IHv: "parse_value f s \<noteq> Inl OutOfFuel" if "2 * length s < f" for s
    using Suc that by blast
  have IHe: "parse_elements f acc s \<noteq> Inl OutOfFuel" if "2 * length s + 1 < f" for acc s
    using Suc that by blast
  have IHm: "parse_members f acc s \<noteq> Inl OutOfFuel" if "2 * length s + 1 < f" for acc s
    using Suc that by blast
  have v: "parse_value (Suc f) s \<noteq> Inl OutOfFuel" if "2 * length s < Suc f" for s
  proof (cases "skip_ws s")
    case Nil
    then show ?thesis by simp
  next
    case (Cons c cs)
    note len = skip_ws_Cons_length [OF Cons]
    have e: "parse_elements f [] cs \<noteq> Inl OutOfFuel"
      using that len by (intro IHe) simp
    have m: "parse_members f [] cs \<noteq> Inl OutOfFuel"
      using that len by (intro IHm) simp
    show ?thesis
      using Cons e m parse_string_chars_fuel [of cs] parse_number_fuel [of "c # cs"]
      by (auto split: sum.splits list.splits)
  qed
  have e: "parse_elements (Suc f) acc s \<noteq> Inl OutOfFuel" if "2 * length s + 1 < Suc f"
    for acc s
  proof (cases "parse_value f s")
    case (Inl failure)
    moreover have "parse_value f s \<noteq> Inl OutOfFuel"
      using that by (intro IHv) simp
    ultimately show ?thesis by simp
  next
    case (Inr r)
    obtain x r1 where r: "r = (x, r1)" by (cases r)
    with Inr have r1: "length r1 < length s" by (intro parse_value_consumes) simp
    show ?thesis
    proof (cases "skip_ws r1")
      case Nil
      with Inr r show ?thesis by simp
    next
      case (Cons d ds)
      note len = skip_ws_Cons_length [OF Cons]
      have "parse_elements f (acc @ [x]) ds \<noteq> Inl OutOfFuel"
        using that len r1 by (intro IHe) simp
      with Inr r Cons show ?thesis by simp
    qed
  qed
  have m: "parse_members (Suc f) acc s \<noteq> Inl OutOfFuel" if "2 * length s + 1 < Suc f"
    for acc s
  proof (cases "skip_ws s")
    case Nil
    then show ?thesis by simp
  next
    case (Cons c cs)
    note len = skip_ws_Cons_length [OF Cons]
    show ?thesis
    proof (cases "parse_string_chars cs")
      case (Inl failure)
      with Cons parse_string_chars_fuel [of cs] show ?thesis by simp
    next
      case (Inr kr)
      obtain key r0 where kr: "kr = (key, r0)" by (cases kr)
      with Inr have r0: "length r0 < length cs" by (intro parse_string_chars_consumes) simp
      show ?thesis
      proof (cases "skip_ws r0")
        case Nil
        with Cons Inr kr show ?thesis by simp
      next
        case (Cons d ds)
        note sk0 = this
        note len0 = skip_ws_Cons_length [OF sk0]
        show ?thesis
        proof (cases "parse_value f ds")
          case (Inl failure)
          moreover have "parse_value f ds \<noteq> Inl OutOfFuel"
            using that len r0 len0 by (intro IHv) simp
          ultimately show ?thesis
            using \<open>skip_ws s = c # cs\<close> \<open>parse_string_chars cs = Inr kr\<close> kr sk0 by simp
        next
          case (Inr vr)
          obtain x r1 where vr: "vr = (x, r1)" by (cases vr)
          with Inr have r1: "length r1 < length ds" by (intro parse_value_consumes) simp
          show ?thesis
          proof (cases "skip_ws r1")
            case Nil
            with \<open>skip_ws s = c # cs\<close> \<open>parse_string_chars cs = Inr kr\<close> kr sk0 Inr vr
            show ?thesis by simp
          next
            case (Cons y ys)
            note len1 = skip_ws_Cons_length [OF Cons]
            have "parse_members f (AList.update key x acc) ys \<noteq> Inl OutOfFuel"
              using that len r0 len0 r1 len1 by (intro IHm) simp
            with \<open>skip_ws s = c # cs\<close> \<open>parse_string_chars cs = Inr kr\<close> kr sk0 Inr vr Cons
            show ?thesis by simp
          qed
        qed
      qed
    qed
  qed
  from v e m show ?case by blast
qed

lemma JSON_parse_never_out_of_fuel: "JSON_parse s \<noteq> Inl OutOfFuel"
proof -
  have "parse_value (Suc (2 * length s)) s \<noteq> Inl OutOfFuel"
    using parse_never_out_of_fuel [of "Suc (2 * length s)"] by blast
  then show ?thesis
    by (auto simp: JSON_parse_def simp del: parse_value.simps split: sum.splits)
qed

subsection \<open>Metadata\<close>





section \<open>Properties of gas estimation\<close>

lemma point_not_in_digits: "CHR ''.'' \<notin> set (digits n)"
proof
  assume "CHR ''.'' \<in> set (digits n)"
  with digits_all_digits [of n] have "is_digit CHR ''.''"
    by (simp add: list_all_iff)
  then show False by (simp add: is_digit_def)
qed

lemma point_in_formatEther: "CHR ''.'' \<in> set (formatEther wei)"
  by (simp add: formatEther_def Let_def)

lemma digits_gas_price: "digits 20000000000 = ''20000000000''"
  by (simp add: digits.simps digit_char_values)

lemma digits_product_example: "digits 420000000000000 = ''420000000000000''"
  by (simp add: digits.simps digit_char_values)

lemma formatEther_example: "formatEther 420000000000000 = ''0.00042''"
proof -
  have r: "replicate 3 c = [c, c, c]" for c :: char
    by (simp add: numeral_3_eq_3)
  show ?thesis
    by (simp add: formatEther_def strip_trailing_zeros_def digits.simps digit_char_values
          Let_def r)
qed

text \<open>
  C6, as the claim states it, fails: for a gas estimate of 21000 and a gas price of
  20 gwei, \<open>totalCost\<close> is \<open>0.00042\<close>, the cost in ether with a decimal point, while the
  product in wei, which \<open>calculateGasCost\<close> computes, is \<open>420000000000000\<close>.
\<close>

theorem totalCost_is_in_ether:
  "estimateGasMintLicense shallow_contract basic_options =
     Inr \<lparr>gasLimit = ''21000'', gasPrice = ''20000000000'',
          maxFeePerGas = None, maxPriorityFeePerGas = None, totalCost = ''0.00042''\<rparr>
   \<and> calculateGasCost 21000 20000000000 = ''420000000000000''"
  by (simp add: estimateGasMintLicense_def shallow_contract_def Let_def digits_21000
        digits_gas_price formatEther_example calculateGasCost_def digits_product_example
        twenty_gwei_def)

text \<open>
  C6, amended: \<open>gasLimit\<close> and \<open>gasPrice\<close> of a returned \<open>GasEstimate\<close> are wei integers
  as decimal strings (the gas estimate, and the fee data's gas price or 20 gwei when that
  is absent or zero); \<open>totalCost\<close> is their product formatted by \<open>formatEther\<close>, that is
  in ether with a decimal point, and is never the decimal-string integer of the product
  in wei.
\<close>

theorem gas_estimate_fields:
  assumes "c_estimateGas c (MintLicenseCall (to options) (tokenId options)
             (JSON_stringify (metadata options))) = Inr gasEstimate"
    and "c_getFeeData c = Inr feeData"
  shows "estimateGasMintLicense c options =
           Inr \<lparr>gasLimit = digits gasEstimate,
                gasPrice = digits (effective_gas_price feeData),
                maxFeePerGas = None, maxPriorityFeePerGas = None,
                totalCost = formatEther (gasEstimate * effective_gas_price feeData)\<rparr>
         \<and> list_all is_digit (digits gasEstimate)
         \<and> list_all is_digit (digits (effective_gas_price feeData))
         \<and> formatEther (gasEstimate * effective_gas_price feeData)
             \<noteq> digits (gasEstimate * effective_gas_price feeData)"
proof -
  have "formatEther w \<noteq> digits w" for w
    using point_in_formatEther [of w] point_not_in_digits [of w] by auto
  then show ?thesis
    using assms
    by (simp add: estimateGasMintLicense_def Let_def effective_gas_price_def digits_all_digits
          split: option.splits)
qed

theorem gas_estimate_fields_witness:
  "c_estimateGas shallow_contract (MintLicenseCall (to basic_options) (tokenId basic_options)
             (JSON_stringify (metadata basic_options))) = Inr 21000
   \<and> c_getFeeData shallow_contract = Inr \<lparr>fee_gasPrice = Some 20000000000\<rparr>
   \<and> estimateGasMintLicense shallow_contract basic_options =
     Inr \<lparr>gasLimit = ''21000'', gasPrice = ''20000000000'',
          maxFeePerGas = None, maxPriorityFeePerGas = None, totalCost = ''0.00042''\<rparr>"
proof -
  have est: "c_estimateGas shallow_contract
               (MintLicenseCall (to basic_options) (tokenId basic_options)
                  (JSON_stringify (metadata basic_options))) = Inr 21000"
    by (simp add: shallow_contract_def)
  have fee: "c_getFeeData shallow_contract = Inr \<lparr>fee_gasPrice = Some 20000000000\<rparr>"
    by (simp add: shallow_contract_def)
  show ?thesis
    using gas_estimate_fields [OF est fee] est fee
    by (simp add: effective_gas_price_def digits_21000 digits_gas_price formatEther_example)
qed

end
